theory Spec2Isabelle
  imports Main
begin

section \<open>Shared data model\<close>

text \<open>
  Go's \<open>error\<close> values. A vendor SDK error carries a code and a message
  (\<open>TencentCloudSDKError\<close>), \<open>fmt.Errorf\<close> builds a plain message, and the
  dereference of a nil pointer is a panic, kept here as a value so that every such
  branch of the source is a branch of the model.
\<close>

datatype error = SdkError string string | Errorf string | NilPointerPanic

text \<open>The typed values a schema attribute can hold.\<close>

datatype attr =
    VString string
  | VInt int
  | VBool bool
  | VMap "(string \<times> string) list"
  | VStrs "string list"
  | VInts "int list"
  | VObjs "(string \<times> attr) list list"

text \<open>
  \<open>schema.ResourceData\<close>: the identifier, the prior state (what \<open>GetChange\<close>
  reports as old) and the merged view that \<open>Get\<close> reads and \<open>Set\<close> writes.
  An attribute that is unset is \<open>None\<close>.
\<close>

record ResourceData =
  rid :: string
  prior :: "string \<rightharpoonup> attr"
  vals :: "string \<rightharpoonup> attr"

text \<open>
  What one operation threads through: the resource data \<open>d\<close>, the state of the remote
  vendor system, and the log of what was issued, in order.
\<close>

datatype event = Api string | SetIdEv string

record 'w ctx =
  rd :: ResourceData
  remote :: 'w
  trace :: "event list"

text \<open>
  \<open>meta\<close> and the package constants the operations read. The retry timeouts are counted
  in attempts; \<open>isExpectError\<close> is the classification of vendor errors as retryable.
\<close>

record meta =
  readRetryTimeout :: nat
  writeRetryTimeout :: nat
  retryableErrorCode :: "string list"
  isExpectError :: "error \<Rightarrow> string list \<Rightarrow> bool"
  Region :: string

definition is_zero :: "attr \<Rightarrow> bool" where
  "is_zero v = (case v of
      VString s \<Rightarrow> s = []
    | VInt i \<Rightarrow> i = 0
    | VBool b \<Rightarrow> \<not> b
    | VMap m \<Rightarrow> m = []
    | VStrs xs \<Rightarrow> xs = []
    | VInts xs \<Rightarrow> xs = []
    | VObjs xs \<Rightarrow> xs = [])"

definition GetOk :: "ResourceData \<Rightarrow> string \<Rightarrow> attr option" where
  "GetOk d k = (case vals d k of
      None \<Rightarrow> None
    | Some v \<Rightarrow> if is_zero v then None else Some v)"

definition GetOkString :: "ResourceData \<Rightarrow> string \<Rightarrow> string option" where
  "GetOkString d k = (case GetOk d k of Some (VString s) \<Rightarrow> Some s | _ \<Rightarrow> None)"

definition GetOkInt :: "ResourceData \<Rightarrow> string \<Rightarrow> int option" where
  "GetOkInt d k = (case GetOk d k of Some (VInt i) \<Rightarrow> Some i | _ \<Rightarrow> None)"

definition GetString :: "ResourceData \<Rightarrow> string \<Rightarrow> string" where
  "GetString d k = (case vals d k of Some (VString s) \<Rightarrow> s | _ \<Rightarrow> [])"

definition GetInt :: "ResourceData \<Rightarrow> string \<Rightarrow> int" where
  "GetInt d k = (case vals d k of Some (VInt i) \<Rightarrow> i | _ \<Rightarrow> 0)"

definition GetTags :: "ResourceData \<Rightarrow> string \<Rightarrow> (string \<times> string) list" where
  "GetTags d k = (case vals d k of Some (VMap m) \<Rightarrow> m | _ \<Rightarrow> [])"

text \<open>
  What \<open>Get\<close> reports of an attribute at one level: an unset attribute reads as the zero
  value of its type, so the two are one value here. \<open>d.HasChange\<close> compares what
  \<open>GetChange\<close> reports of the state and of the merged view.
\<close>

definition getValue :: "(string \<rightharpoonup> attr) \<Rightarrow> string \<Rightarrow> attr option" where
  "getValue lvl k = (case lvl k of
      None \<Rightarrow> None
    | Some v \<Rightarrow> if is_zero v then None else Some v)"

definition HasChange :: "ResourceData \<Rightarrow> string \<Rightarrow> bool" where
  "HasChange d k = (getValue (prior d) k \<noteq> getValue (vals d) k)"

definition GetChangeString :: "ResourceData \<Rightarrow> string \<Rightarrow> string \<times> string" where
  "GetChangeString d k =
     ((case prior d k of Some (VString s) \<Rightarrow> s | _ \<Rightarrow> []),
      (case vals d k of Some (VString s) \<Rightarrow> s | _ \<Rightarrow> []))"

definition GetChangeTags ::
  "ResourceData \<Rightarrow> string \<Rightarrow> (string \<times> string) list \<times> (string \<times> string) list" where
  "GetChangeTags d k =
     ((case prior d k of Some (VMap m) \<Rightarrow> m | _ \<Rightarrow> []),
      (case vals d k of Some (VMap m) \<Rightarrow> m | _ \<Rightarrow> []))"

definition SetId :: "string \<Rightarrow> 'w ctx \<Rightarrow> 'w ctx" where
  "SetId v c = c\<lparr>rd := (rd c)\<lparr>rid := v\<rparr>, trace := trace c @ [SetIdEv v]\<rparr>"

text \<open>\<open>d.Set(key, value)\<close>; a nil pointer leaves the attribute unset.\<close>

definition dSet :: "string \<Rightarrow> attr option \<Rightarrow> 'w ctx \<Rightarrow> 'w ctx" where
  "dSet k v c = c\<lparr>rd := (rd c)\<lparr>vals := (vals (rd c))(k := v)\<rparr>\<rparr>"

text \<open>The guarded form \<open>if p != nil { _ = d.Set(key, p) }\<close>.\<close>

definition dSetIfNotNil :: "string \<Rightarrow> attr option \<Rightarrow> 'w ctx \<Rightarrow> 'w ctx" where
  "dSetIfNotNil k v c = (case v of None \<Rightarrow> c | Some x \<Rightarrow> dSet k (Some x) c)"

text \<open>One vendor or service call: it acts on the remote state and is logged.\<close>

definition call :: "string \<Rightarrow> ('w \<Rightarrow> 'a \<times> 'w) \<Rightarrow> 'w ctx \<Rightarrow> 'a \<times> 'w ctx" where
  "call name f c =
     (case f (remote c) of
        (r, w') \<Rightarrow> (r, c\<lparr>remote := w', trace := trace c @ [Api name]\<rparr>))"

subsection \<open>Bounded retry\<close>

text \<open>
  \<open>resource.Retry(timeout, f)\<close> runs \<open>f\<close> until it returns nil or a non-retryable
  error, or until the timeout, and then returns the last error. The timeout is the
  number of further attempts; \<open>f\<close> always runs once.
\<close>

datatype retry_result = RetryOk | RetryableError error | NonRetryableError error

fun Retry :: "nat \<Rightarrow> ('s \<Rightarrow> retry_result \<times> 's) \<Rightarrow> 's \<Rightarrow> error option \<times> 's" where
  "Retry 0 f s =
     (case f s of
        (RetryOk, s') \<Rightarrow> (None, s')
      | (RetryableError e, s') \<Rightarrow> (Some e, s')
      | (NonRetryableError e, s') \<Rightarrow> (Some e, s'))"
| "Retry (Suc n) f s =
     (case f s of
        (RetryOk, s') \<Rightarrow> (None, s')
      | (RetryableError e, s') \<Rightarrow> Retry n f s'
      | (NonRetryableError e, s') \<Rightarrow> (Some e, s'))"

definition retryError :: "meta \<Rightarrow> error \<Rightarrow> string list \<Rightarrow> retry_result" where
  "retryError m err additionRetryableError =
     (if isExpectError m err (retryableErrorCode m) then RetryableError err
      else if additionRetryableError \<noteq> [] \<and> isExpectError m err additionRetryableError
        then RetryableError err
      else NonRetryableError err)"

subsection \<open>Tag service\<close>

record 'w TagService =
  ModifyTags ::
    "string \<Rightarrow> (string \<times> string) list \<Rightarrow> string list \<Rightarrow> 'w \<Rightarrow> error option \<times> 'w"
  DescribeResourceTags ::
    "string \<Rightarrow> string \<Rightarrow> string \<Rightarrow> string \<Rightarrow> 'w
       \<Rightarrow> (error + (string \<times> string) list) \<times> 'w"

text \<open>
  \<open>BuildTagResourceName\<close> and \<open>diffTags\<close>: the six-segment resource name and the
  replace and delete sets of a tag change.
\<close>

definition BuildTagResourceName :: "string \<Rightarrow> string \<Rightarrow> string \<Rightarrow> string \<Rightarrow> string" where
  "BuildTagResourceName serviceType resourceType region ident =
     ''qcs::'' @ serviceType @ '':'' @ region @ '':uin/:'' @ resourceType @ ''/'' @ ident"

definition diffTags ::
  "(string \<times> string) list \<Rightarrow> (string \<times> string) list
     \<Rightarrow> (string \<times> string) list \<times> string list" where
  "diffTags oldTags newTags =
     (filter (\<lambda>(k, v). map_of oldTags k \<noteq> Some v) newTags,
      filter (\<lambda>k. map_of newTags k = None) (map fst oldTags))"

section \<open>CFS snapshot resource\<close>

record SnapshotInfo =
  FileSystemId :: "string option"
  SnapshotName :: "string option"
  Status :: "string option"

record 'w CfsService =
  CreateCfsSnapshot ::
    "string option \<Rightarrow> string option \<Rightarrow> 'w \<Rightarrow> (error + string option) \<times> 'w"
  CfsSnapshotWaitForState :: "string \<Rightarrow> nat \<Rightarrow> 'w \<Rightarrow> error option \<times> 'w"
  DescribeCfsSnapshotById :: "string \<Rightarrow> 'w \<Rightarrow> (error + SnapshotInfo option) \<times> 'w"
  UpdateCfsSnapshotAttribute :: "string \<Rightarrow> string option \<Rightarrow> 'w \<Rightarrow> error option \<times> 'w"
  DeleteCfsSnapshotById :: "string \<Rightarrow> 'w \<Rightarrow> error option \<times> 'w"

definition resourceTencentCloudCfsSnapshotRead ::
  "meta \<Rightarrow> 'w CfsService \<Rightarrow> 'w TagService \<Rightarrow> 'w ctx \<Rightarrow> error option \<times> 'w ctx" where
  "resourceTencentCloudCfsSnapshotRead m service tagService c =
     (let snapshotId = rid (rd c) in
      case call ''DescribeCfsSnapshotById'' (DescribeCfsSnapshotById service snapshotId) c of
        (Inl err, c1) \<Rightarrow> (Some err, c1)
      | (Inr None, c1) \<Rightarrow> (None, SetId [] c1)
      | (Inr (Some snapshot), c1) \<Rightarrow>
          (let c2 = dSetIfNotNil ''file_system_id''
                      (map_option VString (FileSystemId snapshot)) c1;
               c3 = dSetIfNotNil ''snapshot_name''
                      (map_option VString (SnapshotName snapshot)) c2
           in case call ''DescribeResourceTags''
                     (DescribeResourceTags tagService ''cfs'' ''snap'' (Region m) (rid (rd c3))) c3 of
                (Inl err, c4) \<Rightarrow> (Some err, c4)
              | (Inr tags, c4) \<Rightarrow> (None, dSet ''tags'' (Some (VMap tags)) c4)))"

text \<open>
  The closure of the create call: the response it captured travels with the context.
\<close>

definition cfsCreateAttempt ::
  "meta \<Rightarrow> 'w CfsService \<Rightarrow> string option \<Rightarrow> string option
     \<Rightarrow> string option option \<times> 'w ctx \<Rightarrow> retry_result \<times> string option option \<times> 'w ctx" where
  "cfsCreateAttempt m service fsId name s =
     (case call ''CreateCfsSnapshot'' (CreateCfsSnapshot service fsId name) (snd s) of
        (Inl e, c') \<Rightarrow> (retryError m e [], (fst s, c'))
      | (Inr result, c') \<Rightarrow> (RetryOk, (Some result, c')))"

definition resourceTencentCloudCfsSnapshotCreate ::
  "meta \<Rightarrow> 'w CfsService \<Rightarrow> 'w TagService \<Rightarrow> 'w ctx \<Rightarrow> error option \<times> 'w ctx" where
  "resourceTencentCloudCfsSnapshotCreate m service tagService c =
     (case Retry (writeRetryTimeout m)
             (cfsCreateAttempt m service (GetOkString (rd c) ''file_system_id'')
                (GetOkString (rd c) ''snapshot_name''))
             (None, c) of
        (Some err, (response, c1)) \<Rightarrow> (Some err, c1)
      | (None, (response, c1)) \<Rightarrow>
          (case response of
             None \<Rightarrow> (Some NilPointerPanic, c1)
           | Some None \<Rightarrow> (Some NilPointerPanic, c1)
           | Some (Some snapshotId) \<Rightarrow>
               (let c2 = SetId snapshotId c1 in
                case call ''CfsSnapshotWaitForState''
                       (CfsSnapshotWaitForState service (rid (rd c2)) (2 * readRetryTimeout m)) c2 of
                  (Some e, c3) \<Rightarrow> (Some e, c3)
                | (None, c3) \<Rightarrow>
                    (let tags = GetTags (rd c3) ''tags'' in
                     if length tags > 0 then
                       (case call ''ModifyTags''
                               (ModifyTags tagService
                                  (''qcs::cfs:'' @ Region m @ '':uin/:snap/'' @ rid (rd c3))
                                  tags []) c3 of
                          (Some err, c4) \<Rightarrow> (Some err, c4)
                        | (None, c4) \<Rightarrow>
                            resourceTencentCloudCfsSnapshotRead m service tagService c4)
                     else resourceTencentCloudCfsSnapshotRead m service tagService c3))))"


text \<open>
  The closure shape shared by most calls under retry: issue the call, return nil on
  success and \<open>retryError(e, ...)\<close> otherwise.
\<close>

definition attempt ::
  "meta \<Rightarrow> string list \<Rightarrow> string \<Rightarrow> ('w \<Rightarrow> error option \<times> 'w) \<Rightarrow> 'w ctx
     \<Rightarrow> retry_result \<times> 'w ctx" where
  "attempt m additionRetryableError name f c =
     (case call name f c of
        (Some e, c') \<Rightarrow> (retryError m e additionRetryableError, c')
      | (None, c') \<Rightarrow> (RetryOk, c'))"

definition resourceTencentCloudCfsSnapshotUpdate ::
  "meta \<Rightarrow> 'w CfsService \<Rightarrow> 'w TagService \<Rightarrow> 'w ctx \<Rightarrow> error option \<times> 'w ctx" where
  "resourceTencentCloudCfsSnapshotUpdate m service tagService c =
     (let snapshotId = rid (rd c);
          needChange = HasChange (rd c) ''snapshot_name'';
          reqSnapshotName =
            (if HasChange (rd c) ''snapshot_name'' then GetOkString (rd c) ''snapshot_name''
             else None)
      in case (if needChange
               then Retry (writeRetryTimeout m)
                      (attempt m [] ''UpdateCfsSnapshotAttribute''
                         (UpdateCfsSnapshotAttribute service snapshotId reqSnapshotName)) c
               else (None, c)) of
           (Some err, c1) \<Rightarrow> (Some err, c1)
         | (None, c1) \<Rightarrow>
             (if HasChange (rd c1) ''tags'' then
                (case diffTags (fst (GetChangeTags (rd c1) ''tags''))
                        (snd (GetChangeTags (rd c1) ''tags'')) of
                   (replaceTags, deleteTags) \<Rightarrow>
                     (case call ''ModifyTags''
                             (ModifyTags tagService
                                (BuildTagResourceName ''cfs'' ''snap'' (Region m) (rid (rd c1)))
                                replaceTags deleteTags) c1 of
                        (Some err, c2) \<Rightarrow> (Some err, c2)
                      | (None, c2) \<Rightarrow>
                          resourceTencentCloudCfsSnapshotRead m service tagService c2))
              else resourceTencentCloudCfsSnapshotRead m service tagService c1))"

text \<open>The polling closure of Delete: absent ends the wait, present asks for a retry.\<close>

definition cfsDeletePoll ::
  "meta \<Rightarrow> 'w CfsService \<Rightarrow> string \<Rightarrow> 'w ctx \<Rightarrow> retry_result \<times> 'w ctx" where
  "cfsDeletePoll m service snapshotId c =
     (case call ''DescribeCfsSnapshotById'' (DescribeCfsSnapshotById service snapshotId) c of
        (Inl errRet, c') \<Rightarrow> (retryError m errRet [''InternalError''], c')
      | (Inr None, c') \<Rightarrow> (RetryOk, c')
      | (Inr (Some instance), c') \<Rightarrow>
          (case Status instance of
             None \<Rightarrow> (NonRetryableError NilPointerPanic, c')
           | Some st \<Rightarrow>
               (RetryableError (Errorf (''cfs snapshot status is '' @ st @ '', retry...'')), c')))"

definition resourceTencentCloudCfsSnapshotDelete ::
  "meta \<Rightarrow> 'w CfsService \<Rightarrow> 'w ctx \<Rightarrow> error option \<times> 'w ctx" where
  "resourceTencentCloudCfsSnapshotDelete m service c =
     (let snapshotId = rid (rd c) in
      case call ''DeleteCfsSnapshotById'' (DeleteCfsSnapshotById service snapshotId) c of
        (Some err, c1) \<Rightarrow> (Some err, c1)
      | (None, c1) \<Rightarrow>
          Retry (2 * readRetryTimeout m) (cfsDeletePoll m service snapshotId) c1)"

section \<open>MariaDB security groups resource\<close>

text \<open>
  \<open>strings.Split\<close>: the pieces between the leftmost, non-overlapping occurrences of
  the separator; an empty separator splits into single characters. \<open>skip\<close> counts the
  characters of a matched separator still to be passed over.
\<close>

fun splitOn :: "string \<Rightarrow> nat \<Rightarrow> string \<Rightarrow> string \<Rightarrow> string list" where
  "splitOn sep skip acc [] = [rev acc]"
| "splitOn sep skip acc (c # cs) =
     (if 0 < skip then splitOn sep (skip - 1) acc cs
      else if take (length sep) (c # cs) = sep
        then rev acc # splitOn sep (length sep - 1) [] cs
      else splitOn sep 0 (c # acc) cs)"

definition Split :: "string \<Rightarrow> string \<Rightarrow> string list" where
  "Split s sep = (if sep = [] then map (\<lambda>ch. [ch]) s else splitOn sep 0 [] s)"

text \<open>
  The field separator of composite identifiers, as the import example
  \<open>tdsql-4pzs5b67#sg-7kpsbxdb#mariadb\<close> shows it.
\<close>

definition FILED_SP :: string where
  "FILED_SP = ''#''"

record SecurityGroup =
  SecurityGroupId :: "string option"
  SecurityGroupName :: "string option"

record 'w MariadbService =
  AssociateSecurityGroups ::
    "string list \<Rightarrow> string option \<Rightarrow> string option \<Rightarrow> 'w \<Rightarrow> error option \<times> 'w"
  DescribeMariadbSecurityGroup ::
    "string \<Rightarrow> string \<Rightarrow> string \<Rightarrow> 'w \<Rightarrow> (error + SecurityGroup option) \<times> 'w"
  ModifyDBInstanceSecurityGroups ::
    "string \<Rightarrow> string list \<Rightarrow> string \<Rightarrow> 'w \<Rightarrow> error option \<times> 'w"
  DeleteMariadbSecurityGroupsById ::
    "string \<Rightarrow> string \<Rightarrow> string \<Rightarrow> 'w \<Rightarrow> error option \<times> 'w"

definition resourceTencentCloudMariadbSecurityGroupsRead ::
  "'w MariadbService \<Rightarrow> 'w ctx \<Rightarrow> error option \<times> 'w ctx" where
  "resourceTencentCloudMariadbSecurityGroupsRead service c =
     (let idSplit = Split (rid (rd c)) FILED_SP in
      if length idSplit \<noteq> 3 then (Some (Errorf (''id is broken,'' @ rid (rd c))), c)
      else
        (let instanceId = idSplit ! 0;
             securityGroupId = idSplit ! 1;
             product = idSplit ! 2
         in case call ''DescribeMariadbSecurityGroup''
                   (DescribeMariadbSecurityGroup service instanceId securityGroupId product) c of
              (Inl err, c1) \<Rightarrow> (Some err, c1)
            | (Inr None, c1) \<Rightarrow>
                (Some (Errorf (''resource `securityGroups` '' @ securityGroupId
                                 @ '' does not exist'')),
                 SetId [] c1)
            | (Inr (Some securityGroup), c1) \<Rightarrow>
                (None,
                 dSet ''product'' (Some (VString product))
                   (dSet ''security_group_id'' (Some (VString securityGroupId))
                      (dSet ''instance_id'' (Some (VString instanceId)) c1)))))"

definition resourceTencentCloudMariadbSecurityGroupsCreate ::
  "meta \<Rightarrow> 'w MariadbService \<Rightarrow> 'w ctx \<Rightarrow> error option \<times> 'w ctx" where
  "resourceTencentCloudMariadbSecurityGroupsCreate m service c =
     (let instanceId = (case GetOkString (rd c) ''instance_id'' of Some v \<Rightarrow> v | None \<Rightarrow> []);
          reqInstanceIds =
            (case GetOkString (rd c) ''instance_id'' of Some v \<Rightarrow> [v] | None \<Rightarrow> []);
          securityGroupId =
            (case GetOkString (rd c) ''security_group_id'' of Some v \<Rightarrow> v | None \<Rightarrow> []);
          product = (case GetOkString (rd c) ''product'' of Some v \<Rightarrow> v | None \<Rightarrow> [])
      in case Retry (writeRetryTimeout m)
                (attempt m [] ''AssociateSecurityGroups''
                   (AssociateSecurityGroups service reqInstanceIds
                      (GetOkString (rd c) ''security_group_id'')
                      (GetOkString (rd c) ''product''))) c of
           (Some err, c1) \<Rightarrow> (Some err, c1)
         | (None, c1) \<Rightarrow>
             resourceTencentCloudMariadbSecurityGroupsRead service
               (SetId (instanceId @ FILED_SP @ securityGroupId @ FILED_SP @ product) c1))"

definition resourceTencentCloudMariadbSecurityGroupsUpdate ::
  "meta \<Rightarrow> 'w MariadbService \<Rightarrow> 'w ctx \<Rightarrow> error option \<times> 'w ctx" where
  "resourceTencentCloudMariadbSecurityGroupsUpdate m service c =
     (let idSplit = Split (rid (rd c)) FILED_SP in
      if length idSplit \<noteq> 3 then (Some (Errorf (''id is broken,'' @ rid (rd c))), c)
      else
        (let instanceId = idSplit ! 0;
             securityGroupId = idSplit ! 1;
             product = idSplit ! 2
         in if HasChange (rd c) ''instance_id''
              then (Some (Errorf ''`instance_id` do not support change now.''), c)
            else if HasChange (rd c) ''security_group_id''
              then (Some (Errorf ''`security_group_id` do not support change now.''), c)
            else if HasChange (rd c) ''product''
              then (Some (Errorf ''`product` do not support change now.''), c)
            else
              (case Retry (writeRetryTimeout m)
                      (attempt m [] ''ModifyDBInstanceSecurityGroups''
                         (ModifyDBInstanceSecurityGroups service instanceId [securityGroupId]
                            product)) c of
                 (Some err, c1) \<Rightarrow> (Some err, c1)
               | (None, c1) \<Rightarrow> resourceTencentCloudMariadbSecurityGroupsRead service c1)))"

definition resourceTencentCloudMariadbSecurityGroupsDelete ::
  "'w MariadbService \<Rightarrow> 'w ctx \<Rightarrow> error option \<times> 'w ctx" where
  "resourceTencentCloudMariadbSecurityGroupsDelete service c =
     (let idSplit = Split (rid (rd c)) FILED_SP in
      if length idSplit \<noteq> 3 then (Some (Errorf (''id is broken,'' @ rid (rd c))), c)
      else
        (let instanceId = idSplit ! 0;
             securityGroupId = idSplit ! 1;
             product = idSplit ! 2
         in call ''DeleteMariadbSecurityGroupsById''
              (DeleteMariadbSecurityGroupsById service instanceId securityGroupId product) c))"


section \<open>TSF application config resource\<close>

record Config =
  ConfigId :: "string option"
  ConfigName :: "string option"
  ConfigVersion :: "string option"
  ConfigValue :: "string option"
  ApplicationId :: "string option"
  ConfigVersionDesc :: "string option"
  ConfigType :: "string option"

text \<open>
  \<open>CreateConfig\<close> takes the request (its string fields, \<open>EncodeWithBase64\<close> and
  \<open>ProgramIdList\<close>) and answers with the \<open>Result\<close> pointer of the response.
\<close>

record 'w TsfService =
  CreateConfig ::
    "Config \<Rightarrow> bool option \<Rightarrow> string list \<Rightarrow> 'w \<Rightarrow> (error + bool option) \<times> 'w"
  DescribeTsfApplicationConfigById ::
    "string \<Rightarrow> string \<Rightarrow> 'w \<Rightarrow> (error + Config option) \<times> 'w"
  DeleteTsfApplicationConfigById :: "string \<Rightarrow> 'w \<Rightarrow> error option \<times> 'w"

definition tsfApplicationConfigSchema :: "string list" where
  "tsfApplicationConfigSchema =
     [''config_name'', ''config_version'', ''config_value'', ''application_id'',
      ''config_version_desc'', ''config_type'', ''encode_with_base64'', ''program_id_list'']"

definition resourceTencentCloudTsfApplicationConfigRead ::
  "'w TsfService \<Rightarrow> 'w ctx \<Rightarrow> error option \<times> 'w ctx" where
  "resourceTencentCloudTsfApplicationConfigRead service c =
     (let configId = rid (rd c) in
      case call ''DescribeTsfApplicationConfigById''
             (DescribeTsfApplicationConfigById service configId []) c of
        (Inl err, c1) \<Rightarrow> (Some err, c1)
      | (Inr None, c1) \<Rightarrow> (None, SetId [] c1)
      | (Inr (Some applicationConfig), c1) \<Rightarrow>
          (None,
           dSetIfNotNil ''config_type'' (map_option VString (ConfigType applicationConfig))
            (dSetIfNotNil ''config_version_desc''
               (map_option VString (ConfigVersionDesc applicationConfig))
              (dSetIfNotNil ''application_id''
                 (map_option VString (ApplicationId applicationConfig))
                (dSetIfNotNil ''config_value''
                   (map_option VString (ConfigValue applicationConfig))
                  (dSetIfNotNil ''config_version''
                     (map_option VString (ConfigVersion applicationConfig))
                    (dSetIfNotNil ''config_name''
                       (map_option VString (ConfigName applicationConfig)) c1)))))))"

definition tsfCreateAttempt ::
  "meta \<Rightarrow> 'w TsfService \<Rightarrow> Config \<Rightarrow> bool option \<Rightarrow> string list
     \<Rightarrow> bool option option \<times> 'w ctx \<Rightarrow> retry_result \<times> bool option option \<times> 'w ctx" where
  "tsfCreateAttempt m service request enc progs s =
     (case call ''CreateConfig'' (CreateConfig service request enc progs) (snd s) of
        (Inl e, c') \<Rightarrow> (retryError m e [], (fst s, c'))
      | (Inr result, c') \<Rightarrow> (RetryOk, (Some result, c')))"

definition resourceTencentCloudTsfApplicationConfigCreate ::
  "meta \<Rightarrow> 'w TsfService \<Rightarrow> 'w ctx \<Rightarrow> error option \<times> 'w ctx" where
  "resourceTencentCloudTsfApplicationConfigCreate m service c =
     (let configName = (case GetOkString (rd c) ''config_name'' of Some v \<Rightarrow> v | None \<Rightarrow> []);
          request = \<lparr>ConfigId = None,
                     ConfigName = GetOkString (rd c) ''config_name'',
                     ConfigVersion = GetOkString (rd c) ''config_version'',
                     ConfigValue = GetOkString (rd c) ''config_value'',
                     ApplicationId = GetOkString (rd c) ''application_id'',
                     ConfigVersionDesc = GetOkString (rd c) ''config_version_desc'',
                     ConfigType = GetOkString (rd c) ''config_type''\<rparr>;
          reqEncodeWithBase64 =
            Some (case vals (rd c) ''encode_with_base64'' of Some (VBool b) \<Rightarrow> b | _ \<Rightarrow> False);
          reqProgramIdList =
            (case GetOk (rd c) ''program_id_list'' of Some (VStrs xs) \<Rightarrow> xs | _ \<Rightarrow> [])
      in case Retry (writeRetryTimeout m)
                (tsfCreateAttempt m service request reqEncodeWithBase64 reqProgramIdList)
                (None, c) of
           (Some err, (response, c1)) \<Rightarrow> (Some err, c1)
         | (None, (response, c1)) \<Rightarrow>
             (case response of
                None \<Rightarrow> (Some NilPointerPanic, c1)
              | Some None \<Rightarrow> (Some NilPointerPanic, c1)
              | Some (Some False) \<Rightarrow>
                  (Some (Errorf (''[DEBUG] api[CreateConfig] Creation failed, and the return ''
                                   @ ''result of interface creation is false'')), c1)
              | Some (Some True) \<Rightarrow>
                  (case call ''DescribeTsfApplicationConfigById''
                          (DescribeTsfApplicationConfigById service [] configName) c1 of
                     (Inl err, c2) \<Rightarrow> (Some err, c2)
                   | (Inr None, c2) \<Rightarrow> (Some NilPointerPanic, c2)
                   | (Inr (Some applicationConfig), c2) \<Rightarrow>
                       (case ConfigId applicationConfig of
                          None \<Rightarrow> (Some NilPointerPanic, c2)
                        | Some configId \<Rightarrow>
                            resourceTencentCloudTsfApplicationConfigRead service
                              (SetId configId c2)))))"

text \<open>
  The loop over a list of attribute names that returns at the first changed one
  (\<open>for _, v := range names { if d.HasChange(v) { return ... } }\<close>).
\<close>

fun firstChanged :: "ResourceData \<Rightarrow> string list \<Rightarrow> string option" where
  "firstChanged d [] = None"
| "firstChanged d (v # vs) = (if HasChange d v then Some v else firstChanged d vs)"

definition tsfImmutableArgs :: "string list" where
  "tsfImmutableArgs =
     [''config_name'', ''config_version'', ''config_value'', ''application_id'',
      ''config_version_desc'', ''config_type'', ''encode_with_base64'', ''program_id_list'']"

definition resourceTencentCloudTsfApplicationConfigUpdate ::
  "'w TsfService \<Rightarrow> 'w ctx \<Rightarrow> error option \<times> 'w ctx" where
  "resourceTencentCloudTsfApplicationConfigUpdate service c =
     (case firstChanged (rd c) tsfImmutableArgs of
        Some v \<Rightarrow> (Some (Errorf (''argument `'' @ v @ ''` cannot be changed'')), c)
      | None \<Rightarrow> resourceTencentCloudTsfApplicationConfigRead service c)"

definition resourceTencentCloudTsfApplicationConfigDelete ::
  "'w TsfService \<Rightarrow> 'w ctx \<Rightarrow> error option \<times> 'w ctx" where
  "resourceTencentCloudTsfApplicationConfigDelete service c =
     (let configId = rid (rd c) in
      call ''DeleteTsfApplicationConfigById'' (DeleteTsfApplicationConfigById service configId) c)"

section \<open>Package constants\<close>

text \<open>
  The constants of the package that the EIP and VPN gateway resources and the data source
  read, the clock, and the two helpers \<open>time.Parse\<close> (with the layout
  \<open>2006-01-02 15:04:05\<close>, giving seconds) and \<open>helper.DataResourceIdsHash\<close>.
  They are parameters: every theorem holds for any value of them.
\<close>

record pkg =
  VPC_SERVICE_TYPE :: string
  EIP_RESOURCE_TYPE :: string
  EIP_STATUS_CREATING :: string
  VPN_STATE_AVAILABLE :: string
  VPN_CHARGE_TYPE_PREPAID :: string
  VPN_CHARGE_TYPE_POSTPAID_BY_HOUR :: string
  GATE_WAY_TYPE_CCN :: string
  VPCNotFound :: string
  timeParse :: "string \<Rightarrow> error + int"
  timeNow :: int
  DataResourceIdsHash :: "string list \<Rightarrow> string"

section \<open>EIP resource\<close>

record Address =
  AddressName :: "string option"
  AddressType :: "string option"
  AddressIp :: "string option"
  AddressStatus :: "string option"
  InternetChargeType :: "string option"

record AllocateAddressesRequest =
  reqAddressType :: "string option"
  reqAnycastZone :: "string option"
  reqInternetServiceProvider :: "string option"
  reqInternetChargeType :: "string option"
  reqInternetMaxBandwidthOut :: "int option"
  reqTags :: "(string \<times> string) list"
  reqBandwidthPackageId :: "string option"

text \<open>The part of \<open>VpcService\<close> and of the VPC client that the EIP resource calls.\<close>

record 'w EipApi =
  AllocateAddresses ::
    "AllocateAddressesRequest \<Rightarrow> 'w \<Rightarrow> (error + string option list) \<times> 'w"
  DescribeEipById :: "string \<Rightarrow> 'w \<Rightarrow> (error + Address option) \<times> 'w"
  ModifyEipName :: "string \<Rightarrow> string \<Rightarrow> 'w \<Rightarrow> error option \<times> 'w"
  ModifyEipBandwidthOut :: "string \<Rightarrow> int \<Rightarrow> 'w \<Rightarrow> error option \<times> 'w"
  DescribeVpcBandwidthPackageByEip ::
    "string \<Rightarrow> 'w \<Rightarrow> (error + string option option) \<times> 'w"
  UnattachEip :: "string \<Rightarrow> 'w \<Rightarrow> error option \<times> 'w"
  DeleteEip :: "string \<Rightarrow> 'w \<Rightarrow> error option \<times> 'w"

definition eipReadAttempt ::
  "meta \<Rightarrow> 'w EipApi \<Rightarrow> string \<Rightarrow> Address option \<times> 'w ctx
     \<Rightarrow> retry_result \<times> Address option \<times> 'w ctx" where
  "eipReadAttempt m vpcService eipId s =
     (case call ''DescribeEipById'' (DescribeEipById vpcService eipId) (snd s) of
        (Inl errRet, c') \<Rightarrow> (retryError m errRet [], (fst s, c'))
      | (Inr instance, c') \<Rightarrow> (RetryOk, (instance, c')))"

definition resourceTencentCloudEipRead ::
  "meta \<Rightarrow> pkg \<Rightarrow> 'w EipApi \<Rightarrow> 'w TagService \<Rightarrow> 'w ctx \<Rightarrow> error option \<times> 'w ctx" where
  "resourceTencentCloudEipRead m k vpcService tagService c =
     (let eipId = rid (rd c) in
      case Retry (readRetryTimeout m) (eipReadAttempt m vpcService eipId) (None, c) of
        (Some err, (eip, c1)) \<Rightarrow> (Some err, c1)
      | (None, (None, c1)) \<Rightarrow> (None, SetId [] c1)
      | (None, (Some eip, c1)) \<Rightarrow>
          (case call ''DescribeResourceTags''
                  (DescribeResourceTags tagService (VPC_SERVICE_TYPE k) (EIP_RESOURCE_TYPE k)
                     (Region m) eipId) c1 of
             (Inl err, c2) \<Rightarrow> (Some err, c2)
           | (Inr tags, c2) \<Rightarrow>
               (case call ''DescribeVpcBandwidthPackageByEip''
                       (DescribeVpcBandwidthPackageByEip vpcService eipId) c2 of
                  (Inl err, c3) \<Rightarrow> (Some err, c3)
                | (Inr bgp, c3) \<Rightarrow>
                    (let c4 = dSet ''tags'' (Some (VMap tags))
                               (dSet ''internet_charge_type''
                                  (map_option VString (InternetChargeType eip))
                                 (dSet ''status'' (map_option VString (AddressStatus eip))
                                   (dSet ''public_ip'' (map_option VString (AddressIp eip))
                                     (dSet ''type'' (map_option VString (AddressType eip))
                                       (dSet ''name'' (map_option VString (AddressName eip))
                                          c3)))))
                     in case bgp of
                          None \<Rightarrow> (None, c4)
                        | Some bandwidthPackageId \<Rightarrow>
                            (None, dSet ''bandwidth_package_id''
                                     (map_option VString bandwidthPackageId) c4)))))"

definition eipAllocateAttempt ::
  "meta \<Rightarrow> 'w EipApi \<Rightarrow> AllocateAddressesRequest \<Rightarrow> string \<times> 'w ctx
     \<Rightarrow> retry_result \<times> string \<times> 'w ctx" where
  "eipAllocateAttempt m client request s =
     (case call ''AllocateAddresses'' (AllocateAddresses client request) (snd s) of
        (Inl err, c') \<Rightarrow> (retryError m err [], (fst s, c'))
      | (Inr addressSet, c') \<Rightarrow>
          (if length addressSet < 1
             then (RetryableError (Errorf ''eip id is nil''), (fst s, c'))
           else (case addressSet ! 0 of
                   None \<Rightarrow> (NonRetryableError NilPointerPanic, (fst s, c'))
                 | Some v \<Rightarrow> (RetryOk, (v, c')))))"

definition eipCreatePoll ::
  "meta \<Rightarrow> pkg \<Rightarrow> 'w EipApi \<Rightarrow> string \<Rightarrow> 'w ctx \<Rightarrow> retry_result \<times> 'w ctx" where
  "eipCreatePoll m k vpcService eipId c =
     (case call ''DescribeEipById'' (DescribeEipById vpcService eipId) c of
        (Inl errRet, c') \<Rightarrow> (retryError m errRet [], c')
      | (Inr None, c') \<Rightarrow> (RetryOk, c')
      | (Inr (Some eip), c') \<Rightarrow>
          (case AddressStatus eip of
             None \<Rightarrow> (NonRetryableError NilPointerPanic, c')
           | Some st \<Rightarrow>
               (if st = EIP_STATUS_CREATING k
                  then (RetryableError (Errorf ''eip is still creating''), c')
                else (RetryOk, c'))))"

text \<open>The tag block and the name block of Create.\<close>

definition eipCreateTags ::
  "meta \<Rightarrow> pkg \<Rightarrow> 'w TagService \<Rightarrow> string \<Rightarrow> 'w ctx \<Rightarrow> error option \<times> 'w ctx" where
  "eipCreateTags m k tagService eipId c =
     (let tags = GetTags (rd c) ''tags'' in
      if length tags > 0 then
        call ''ModifyTags''
          (ModifyTags tagService
             (BuildTagResourceName (VPC_SERVICE_TYPE k) (EIP_RESOURCE_TYPE k) (Region m) eipId)
             tags []) c
      else (None, c))"

definition eipCreateName ::
  "meta \<Rightarrow> 'w EipApi \<Rightarrow> string \<Rightarrow> 'w ctx \<Rightarrow> error option \<times> 'w ctx" where
  "eipCreateName m vpcService eipId c =
     (case GetOkString (rd c) ''name'' of
        Some name \<Rightarrow>
          Retry (writeRetryTimeout m)
            (attempt m [] ''ModifyEipName'' (ModifyEipName vpcService eipId name)) c
      | None \<Rightarrow> (None, c))"

definition resourceTencentCloudEipCreate ::
  "meta \<Rightarrow> pkg \<Rightarrow> 'w EipApi \<Rightarrow> 'w TagService \<Rightarrow> 'w ctx \<Rightarrow> error option \<times> 'w ctx" where
  "resourceTencentCloudEipCreate m k client tagService c =
     (let request = \<lparr>reqAddressType = GetOkString (rd c) ''type'',
                     reqAnycastZone = GetOkString (rd c) ''anycast_zone'',
                     reqInternetServiceProvider =
                       GetOkString (rd c) ''internet_service_provider'',
                     reqInternetChargeType = GetOkString (rd c) ''internet_charge_type'',
                     reqInternetMaxBandwidthOut =
                       GetOkInt (rd c) ''internet_max_bandwidth_out'',
                     reqTags = GetTags (rd c) ''tags'',
                     reqBandwidthPackageId = GetOkString (rd c) ''bandwidth_package_id''\<rparr>
      in case Retry (writeRetryTimeout m) (eipAllocateAttempt m client request) ([], c) of
           (Some err, (eipId, c1)) \<Rightarrow> (Some err, c1)
         | (None, (eipId, c1)) \<Rightarrow>
             (case eipCreateTags m k tagService eipId (SetId eipId c1) of
                (Some err, c3) \<Rightarrow> (Some err, c3)
              | (None, c3) \<Rightarrow>
                  (case Retry (readRetryTimeout m) (eipCreatePoll m k client eipId) c3 of
                     (Some err, c4) \<Rightarrow> (Some err, c4)
                   | (None, c4) \<Rightarrow>
                       (case eipCreateName m client eipId c4 of
                          (Some err, c5) \<Rightarrow> (Some err, c5)
                        | (None, c5) \<Rightarrow>
                            resourceTencentCloudEipRead m k client tagService c5))))"

definition resourceTencentCloudEipUpdate ::
  "meta \<Rightarrow> pkg \<Rightarrow> 'w EipApi \<Rightarrow> 'w TagService \<Rightarrow> 'w ctx \<Rightarrow> error option \<times> 'w ctx" where
  "resourceTencentCloudEipUpdate m k vpcService tagService c =
     (let eipId = rid (rd c) in
      case firstChanged (rd c) [''bandwidth_package_id''] of
        Some field \<Rightarrow>
          (Some (Errorf (''tencentcloud_eip update on '' @ field @ '' is not support yet'')), c)
      | None \<Rightarrow>
          (case (if HasChange (rd c) ''name''
                 then call ''ModifyEipName''
                        (ModifyEipName vpcService eipId (GetString (rd c) ''name'')) c
                 else (None, c)) of
             (Some err, c1) \<Rightarrow> (Some err, c1)
           | (None, c1) \<Rightarrow>
               (case (if HasChange (rd c1) ''internet_max_bandwidth_out''
                      then (case GetOkInt (rd c1) ''internet_max_bandwidth_out'' of
                              Some bandwidthOut \<Rightarrow>
                                call ''ModifyEipBandwidthOut''
                                  (ModifyEipBandwidthOut vpcService eipId bandwidthOut) c1
                            | None \<Rightarrow> (None, c1))
                      else (None, c1)) of
                  (Some err, c2) \<Rightarrow> (Some err, c2)
                | (None, c2) \<Rightarrow>
                    (case (if HasChange (rd c2) ''tags''
                           then (case diffTags (fst (GetChangeTags (rd c2) ''tags''))
                                        (snd (GetChangeTags (rd c2) ''tags'')) of
                                   (replaceTags, deleteTags) \<Rightarrow>
                                     call ''ModifyTags''
                                       (ModifyTags tagService
                                          (BuildTagResourceName (VPC_SERVICE_TYPE k)
                                             (EIP_RESOURCE_TYPE k) (Region m) eipId)
                                          replaceTags deleteTags) c2)
                           else (None, c2)) of
                       (Some err, c3) \<Rightarrow> (Some err, c3)
                     | (None, c3) \<Rightarrow>
                         resourceTencentCloudEipRead m k vpcService tagService c3))))"

definition eipDeletePoll ::
  "meta \<Rightarrow> 'w EipApi \<Rightarrow> string \<Rightarrow> 'w ctx \<Rightarrow> retry_result \<times> 'w ctx" where
  "eipDeletePoll m vpcService eipId c =
     (case call ''DescribeEipById'' (DescribeEipById vpcService eipId) c of
        (Inl errRet, c') \<Rightarrow> (retryError m errRet [], c')
      | (Inr (Some eip), c') \<Rightarrow> (RetryableError (Errorf ''eip is still deleting''), c')
      | (Inr None, c') \<Rightarrow> (RetryOk, c'))"

definition resourceTencentCloudEipDelete ::
  "meta \<Rightarrow> 'w EipApi \<Rightarrow> 'w ctx \<Rightarrow> error option \<times> 'w ctx" where
  "resourceTencentCloudEipDelete m vpcService c =
     (let eipId = rid (rd c) in
      case Retry (writeRetryTimeout m)
             (attempt m [''DesOperation.MutexTaskRunning''] ''UnattachEip''
                (UnattachEip vpcService eipId)) c of
        (Some err, c1) \<Rightarrow> (Some err, c1)
      | (None, c1) \<Rightarrow>
          (case Retry (writeRetryTimeout m)
                  (attempt m [''DesOperation.MutexTaskRunning''] ''DeleteEip''
                     (DeleteEip vpcService eipId)) c1 of
             (Some err, c2) \<Rightarrow> (Some err, c2)
           | (None, c2) \<Rightarrow>
               Retry (readRetryTimeout m) (eipDeletePoll m vpcService eipId) c2))"


section \<open>VPN gateway resource\<close>

record VpnGateway =
  VpnGatewayId :: "string option"
  VpnGatewayName :: "string option"
  PublicIpAddress :: "string option"
  InternetMaxBandwidthOut :: "nat option"
  Type :: "string option"
  CreatedTime :: "string option"
  State :: "string option"
  RenewFlag :: "string option"
  InstanceChargeType :: "string option"
  ExpiredTime :: "string option"
  IsAddressBlocked :: "bool option"
  NewPurchasePlan :: "string option"
  RestrictState :: "string option"
  Zone :: "string option"
  CdcId :: "string option"
  MaxConnection :: "nat option"
  NetworkInstanceId :: "string option"

record CreateVpnGatewayRequest =
  reqVpnGatewayName :: string
  reqBandwidth :: nat
  reqZone :: string
  reqInstanceChargePrepaid :: "(nat \<times> string) option"
  reqInstanceChargeType :: string
  reqType :: "string option"
  reqVpcId :: string
  reqCdcId :: "string option"
  reqMaxConnection :: "nat option"

record VpnConnection =
  VpnConnectionId :: "string option"
  VpnConnectionName :: "string option"

text \<open>The part of \<open>VpcService\<close> and of the VPC client that the VPN gateway resource calls.\<close>

record 'w VpnApi =
  CreateVpnGateway :: "CreateVpnGatewayRequest \<Rightarrow> 'w \<Rightarrow> (error + VpnGateway option) \<times> 'w"
  DescribeVpnGateways :: "string list \<Rightarrow> 'w \<Rightarrow> (error + VpnGateway list) \<times> 'w"
  DescribeVpngwById :: "string \<Rightarrow> 'w \<Rightarrow> (error + bool \<times> VpnGateway) \<times> 'w"
  SetVpnGatewaysRenewFlag :: "string list \<Rightarrow> int \<Rightarrow> 'w \<Rightarrow> error option \<times> 'w"
  ModifyVpnGatewayAttribute ::
    "string \<Rightarrow> string \<Rightarrow> string option \<Rightarrow> 'w \<Rightarrow> error option \<times> 'w"
  ResetVpnGatewayInternetMaxBandwidth :: "string \<Rightarrow> nat \<Rightarrow> 'w \<Rightarrow> error option \<times> 'w"
  DescribeVpnConnections ::
    "(string \<times> string list) list \<Rightarrow> nat \<Rightarrow> 'w \<Rightarrow> (error + VpnConnection list) \<times> 'w"
  DeleteVpnGateway :: "string \<Rightarrow> 'w \<Rightarrow> error option \<times> 'w"

text \<open>The conversion \<open>uint64(i)\<close> of a Go \<open>int\<close>.\<close>

definition uint64 :: "int \<Rightarrow> nat" where
  "uint64 i = nat (i mod 2 ^ 64)"

text \<open>
  The conversion \<open>int(u)\<close> of a \<open>uint64\<close>, which is also how a \<open>uint64\<close> is stored
  in an attribute of type int: values from \<open>2^63\<close> on wrap to negative.
\<close>

definition int64 :: "nat \<Rightarrow> int" where
  "int64 n = (let i = int n mod 2 ^ 64 in if i < 2 ^ 63 then i else i - 2 ^ 64)"

definition resourceTencentCloudVpnGatewayRead ::
  "meta \<Rightarrow> 'w VpnApi \<Rightarrow> 'w TagService \<Rightarrow> 'w ctx \<Rightarrow> error option \<times> 'w ctx" where
  "resourceTencentCloudVpnGatewayRead m service tagService c =
     (let gatewayId = rid (rd c) in
      case call ''DescribeVpngwById'' (DescribeVpngwById service gatewayId) c of
        (Inl err, c1) \<Rightarrow> (Some err, c1)
      | (Inr (False, gateway), c1) \<Rightarrow> (None, SetId [] c1)
      | (Inr (True, gateway), c1) \<Rightarrow>
          (let c2 = dSet ''public_ip_address'' (map_option VString (PublicIpAddress gateway))
                      (dSet ''name'' (map_option VString (VpnGatewayName gateway)) c1)
           in case InternetMaxBandwidthOut gateway of
                None \<Rightarrow> (Some NilPointerPanic, c2)
              | Some bw \<Rightarrow>
                  (let c3 =
                     dSet ''max_connection''
                         (map_option (\<lambda>n. VInt (int64 n)) (MaxConnection gateway))
                      (dSet ''cdc_id'' (map_option VString (CdcId gateway))
                      (dSet ''zone'' (map_option VString (Zone gateway))
                      (dSet ''restrict_state'' (map_option VString (RestrictState gateway))
                      (dSet ''new_purchase_plan''
                         (map_option VString (NewPurchasePlan gateway))
                      (dSet ''is_address_blocked''
                         (map_option VBool (IsAddressBlocked gateway))
                      (dSet ''expired_time'' (map_option VString (ExpiredTime gateway))
                      (dSet ''charge_type''
                         (map_option VString (InstanceChargeType gateway))
                      (dSet ''prepaid_renew_flag'' (map_option VString (RenewFlag gateway))
                      (dSet ''state'' (map_option VString (State gateway))
                      (dSet ''create_time'' (map_option VString (CreatedTime gateway))
                      (dSet ''type'' (map_option VString (Type gateway))
                      (dSet ''bandwidth'' (Some (VInt (int64 bw))) c2))))))))))))
                   in case call ''DescribeResourceTags''
                             (DescribeResourceTags tagService ''vpc'' ''vpngw'' (Region m)
                                gatewayId) c3 of
                        (Inl err, c4) \<Rightarrow> (Some err, c4)
                      | (Inr tags, c4) \<Rightarrow> (None, dSet ''tags'' (Some (VMap tags)) c4))))"

text \<open>
  The validation of \<open>type\<close> against \<open>vpc_id\<close> at the head of Create: the
  \<open>VpcId\<close> of the request, or the error returned before any call.
\<close>

definition vpnCreateVpcId :: "ResourceData \<Rightarrow> error + string" where
  "vpnCreateVpcId d =
     (case GetOkString d ''type'' of
        Some v \<Rightarrow>
          (if v \<noteq> ''CCN'' then
             (case GetOk d ''vpc_id'' of
                None \<Rightarrow> Inl (Errorf (''[CRITAL] vpc_id is required for vpn gateway in ''
                                       @ v @ '' type''))
              | Some x \<Rightarrow> Inr (GetString d ''vpc_id''))
           else
             (case GetOk d ''vpc_id'' of
                Some x \<Rightarrow> Inl (Errorf (''[CRITAL] vpc_id doesn't make sense when vpn ''
                                         @ ''gateway is in CCN type''))
              | None \<Rightarrow> Inr []))
      | None \<Rightarrow>
          (case GetOk d ''vpc_id'' of
             None \<Rightarrow> Inl (Errorf ''[CRITAL] vpc_id is required for vpn gateway in  type'')
           | Some x \<Rightarrow> Inr (GetString d ''vpc_id'')))"

definition vpnCreateAttempt ::
  "meta \<Rightarrow> 'w VpnApi \<Rightarrow> CreateVpnGatewayRequest \<Rightarrow> VpnGateway option option \<times> 'w ctx
     \<Rightarrow> retry_result \<times> VpnGateway option option \<times> 'w ctx" where
  "vpnCreateAttempt m client request s =
     (case call ''CreateVpnGateway'' (CreateVpnGateway client request) (snd s) of
        (Inl e, c') \<Rightarrow> (retryError m e [], (fst s, c'))
      | (Inr result, c') \<Rightarrow> (RetryOk, (Some result, c')))"

definition vpnCreatePoll ::
  "meta \<Rightarrow> pkg \<Rightarrow> 'w VpnApi \<Rightarrow> string \<Rightarrow> 'w ctx \<Rightarrow> retry_result \<times> 'w ctx" where
  "vpnCreatePoll m k client gatewayId c =
     (case call ''DescribeVpnGateways'' (DescribeVpnGateways client [gatewayId]) c of
        (Inl e, c') \<Rightarrow> (retryError m e [], c')
      | (Inr vpnGatewaySet, c') \<Rightarrow>
          (if length vpnGatewaySet \<noteq> 1
             then (NonRetryableError (Errorf ''creating error''), c')
           else (case State (vpnGatewaySet ! 0) of
                   None \<Rightarrow> (NonRetryableError NilPointerPanic, c')
                 | Some st \<Rightarrow>
                     (if st = VPN_STATE_AVAILABLE k then (RetryOk, c')
                      else (RetryableError
                              (Errorf (''State is not available: '' @ st
                                         @ '', wait for state to be AVAILABLE.'')), c')))))"

definition resourceTencentCloudVpnGatewayCreate ::
  "meta \<Rightarrow> pkg \<Rightarrow> 'w VpnApi \<Rightarrow> 'w TagService \<Rightarrow> 'w ctx \<Rightarrow> error option \<times> 'w ctx" where
  "resourceTencentCloudVpnGatewayCreate m k client tagService c =
     (let chargeType = GetString (rd c) ''charge_type'' in
      case vpnCreateVpcId (rd c) of
        Inl err \<Rightarrow> (Some err, c)
      | Inr vpcId \<Rightarrow>
          (let request =
                 \<lparr>reqVpnGatewayName = GetString (rd c) ''name'',
                  reqBandwidth = uint64 (GetInt (rd c) ''bandwidth''),
                  reqZone = GetString (rd c) ''zone'',
                  reqInstanceChargePrepaid =
                    (if chargeType = VPN_CHARGE_TYPE_PREPAID k
                     then Some (uint64 (GetInt (rd c) ''prepaid_period''),
                                GetString (rd c) ''prepaid_renew_flag'')
                     else None),
                  reqInstanceChargeType = chargeType,
                  reqType = GetOkString (rd c) ''type'',
                  reqVpcId = vpcId,
                  reqCdcId = GetOkString (rd c) ''cdc_id'',
                  reqMaxConnection = map_option uint64 (GetOkInt (rd c) ''max_connection'')\<rparr>
           in case Retry (readRetryTimeout m) (vpnCreateAttempt m client request) (None, c) of
                (Some err, (response, c1)) \<Rightarrow> (Some err, c1)
              | (None, (response, c1)) \<Rightarrow>
                  (case response of
                     None \<Rightarrow> (Some NilPointerPanic, c1)
                   | Some None \<Rightarrow> (Some (Errorf ''VPN gateway id is nil''), c1)
                   | Some (Some gw) \<Rightarrow>
                       (case VpnGatewayId gw of
                          None \<Rightarrow> (Some NilPointerPanic, c1)
                        | Some gatewayId \<Rightarrow>
                            (let c2 = SetId gatewayId c1 in
                             case Retry (2 * readRetryTimeout m)
                                    (vpnCreatePoll m k client gatewayId) c2 of
                               (Some err, c3) \<Rightarrow> (Some err, c3)
                             | (None, c3) \<Rightarrow>
                                 (let tags = GetTags (rd c3) ''tags'' in
                                  if length tags > 0 then
                                    (case call ''ModifyTags''
                                            (ModifyTags tagService
                                               (BuildTagResourceName ''vpc'' ''vpngw''
                                                  (Region m) gatewayId)
                                               tags []) c3 of
                                       (Some err, c4) \<Rightarrow> (Some err, c4)
                                     | (None, c4) \<Rightarrow>
                                         resourceTencentCloudVpnGatewayRead m client
                                           tagService c4)
                                  else resourceTencentCloudVpnGatewayRead m client
                                         tagService c3))))))"

definition vpnUnsupportedUpdateFields :: "string list" where
  "vpnUnsupportedUpdateFields = [''prepaid_period'', ''type'']"

text \<open>The four blocks of Update that issue a modify call, in the order of the source.\<close>

definition vpnUpdateRenewFlag ::
  "meta \<Rightarrow> pkg \<Rightarrow> 'w VpnApi \<Rightarrow> string \<Rightarrow> 'w ctx \<Rightarrow> error option \<times> 'w ctx" where
  "vpnUpdateRenewFlag m k client gatewayId c =
     (if HasChange (rd c) ''prepaid_renew_flag'' then
        (let chargeType = GetString (rd c) ''charge_type'';
             renewFlag = GetString (rd c) ''prepaid_renew_flag''
         in if chargeType \<noteq> VPN_CHARGE_TYPE_PREPAID k
              then (Some (Errorf ''Invalid renew flag change. Only support pre-paid vpn.''), c)
            else Retry (readRetryTimeout m)
                   (attempt m [] ''SetVpnGatewaysRenewFlag''
                      (SetVpnGatewaysRenewFlag client [gatewayId]
                         (if renewFlag = ''NOTIFY_AND_AUTO_RENEW'' then 1 else 0))) c)
      else (None, c))"

definition vpnUpdateAttribute ::
  "meta \<Rightarrow> pkg \<Rightarrow> 'w VpnApi \<Rightarrow> string \<Rightarrow> 'w ctx \<Rightarrow> error option \<times> 'w ctx" where
  "vpnUpdateAttribute m k client gatewayId c =
     (if HasChange (rd c) ''name'' \<or> HasChange (rd c) ''charge_type'' then
        (let oldChargeType = fst (GetChangeString (rd c) ''charge_type'');
             newChargeType = snd (GetChangeString (rd c) ''charge_type'')
         in if \<not> (oldChargeType = VPN_CHARGE_TYPE_PREPAID k
                   \<and> newChargeType = VPN_CHARGE_TYPE_POSTPAID_BY_HOUR k)
               \<and> oldChargeType = VPN_CHARGE_TYPE_POSTPAID_BY_HOUR k
               \<and> newChargeType = VPN_CHARGE_TYPE_PREPAID k
              then (Some (Errorf (''Invalid charge type change. Only support pre-paid ''
                                    @ ''to post-paid way.'')), c)
            else Retry (readRetryTimeout m)
                   (attempt m [] ''ModifyVpnGatewayAttribute''
                      (ModifyVpnGatewayAttribute client gatewayId (GetString (rd c) ''name'')
                         (if oldChargeType = VPN_CHARGE_TYPE_PREPAID k
                             \<and> newChargeType = VPN_CHARGE_TYPE_POSTPAID_BY_HOUR k
                          then Some newChargeType else None))) c)
      else (None, c))"

definition vpnUpdateBandwidth ::
  "meta \<Rightarrow> 'w VpnApi \<Rightarrow> string \<Rightarrow> 'w ctx \<Rightarrow> error option \<times> 'w ctx" where
  "vpnUpdateBandwidth m client gatewayId c =
     (if HasChange (rd c) ''bandwidth'' then
        Retry (readRetryTimeout m)
          (attempt m [] ''ResetVpnGatewayInternetMaxBandwidth''
             (ResetVpnGatewayInternetMaxBandwidth client gatewayId
                (uint64 (GetInt (rd c) ''bandwidth'')))) c
      else (None, c))"

definition vpnUpdateTags ::
  "meta \<Rightarrow> 'w TagService \<Rightarrow> string \<Rightarrow> 'w ctx \<Rightarrow> error option \<times> 'w ctx" where
  "vpnUpdateTags m tagService gatewayId c =
     (if HasChange (rd c) ''tags'' then
        (case diffTags (fst (GetChangeTags (rd c) ''tags''))
                (snd (GetChangeTags (rd c) ''tags'')) of
           (replaceTags, deleteTags) \<Rightarrow>
             call ''ModifyTags''
               (ModifyTags tagService (BuildTagResourceName ''vpc'' ''vpngw'' (Region m) gatewayId)
                  replaceTags deleteTags) c)
      else (None, c))"

definition resourceTencentCloudVpnGatewayUpdate ::
  "meta \<Rightarrow> pkg \<Rightarrow> 'w VpnApi \<Rightarrow> 'w TagService \<Rightarrow> 'w ctx \<Rightarrow> error option \<times> 'w ctx" where
  "resourceTencentCloudVpnGatewayUpdate m k client tagService c =
     (let gatewayId = rid (rd c) in
      case firstChanged (rd c) vpnUnsupportedUpdateFields of
        Some field \<Rightarrow>
          (Some (Errorf (''Template resource_tc_vpn_gateway update on '' @ field
                           @ '' is not supportted yet. Please renew it on controller web page.'')),
           c)
      | None \<Rightarrow>
          (case vpnUpdateRenewFlag m k client gatewayId c of
             (Some err, c1) \<Rightarrow> (Some err, c1)
           | (None, c1) \<Rightarrow>
               (case vpnUpdateAttribute m k client gatewayId c1 of
                  (Some err, c2) \<Rightarrow> (Some err, c2)
                | (None, c2) \<Rightarrow>
                    (case vpnUpdateBandwidth m client gatewayId c2 of
                       (Some err, c3) \<Rightarrow> (Some err, c3)
                     | (None, c3) \<Rightarrow>
                         (case vpnUpdateTags m tagService gatewayId c3 of
                            (Some err, c4) \<Rightarrow> (Some err, c4)
                          | (None, c4) \<Rightarrow>
                              (if HasChange (rd c4) ''cdc_id''
                                  \<or> HasChange (rd c4) ''max_connection''
                               then (Some (Errorf (''cdc_id and max_connection do not ''
                                                     @ ''support change now.'')), c4)
                               else resourceTencentCloudVpnGatewayRead m client
                                      tagService c4))))))"

text \<open>
  What the first closure of Delete decides from the first gateway of the answer:
  a PREPAID gateway that has not expired and a CCN gateway attached to a network
  instance end the retry with an error.
\<close>

definition vpnDeleteCcnGuard :: "pkg \<Rightarrow> VpnGateway \<Rightarrow> retry_result" where
  "vpnDeleteCcnGuard k gw =
     (case Type gw of
        None \<Rightarrow> NonRetryableError NilPointerPanic
      | Some ty \<Rightarrow>
          (if ty = GATE_WAY_TYPE_CCN k then
             (case NetworkInstanceId gw of
                None \<Rightarrow> NonRetryableError NilPointerPanic
              | Some ni \<Rightarrow>
                  (if ni \<noteq> [] then
                     NonRetryableError
                       (Errorf (''Delete operation is unsupported when VPN gateway is ''
                                  @ ''attached to CCN instance.''))
                   else RetryOk))
           else RetryOk))"

definition vpnDeleteGuard :: "pkg \<Rightarrow> VpnGateway \<Rightarrow> retry_result" where
  "vpnDeleteGuard k gw =
     (case ExpiredTime gw of
        None \<Rightarrow> vpnDeleteCcnGuard k gw
      | Some expiredTime \<Rightarrow>
          (case InstanceChargeType gw of
             None \<Rightarrow> NonRetryableError NilPointerPanic
           | Some ct \<Rightarrow>
               (if ct = VPN_CHARGE_TYPE_PREPAID k \<and> expiredTime \<noteq> ''0000-00-00 00:00:00''
                then (case timeParse k expiredTime of
                        Inl err \<Rightarrow> NonRetryableError (Errorf ''Error format expired time.'')
                      | Inr t \<Rightarrow>
                          (if t - timeNow k > 0 then
                             NonRetryableError
                               (Errorf (''Delete operation is unsupport when VPN gateway ''
                                          @ ''is not expired.''))
                           else vpnDeleteCcnGuard k gw))
                else vpnDeleteCcnGuard k gw)))"

definition vpnDeleteCheck ::
  "meta \<Rightarrow> pkg \<Rightarrow> 'w VpnApi \<Rightarrow> string \<Rightarrow> 'w ctx \<Rightarrow> retry_result \<times> 'w ctx" where
  "vpnDeleteCheck m k client gatewayId c =
     (case call ''DescribeVpnGateways'' (DescribeVpnGateways client [gatewayId]) c of
        (Inl e, c') \<Rightarrow> (retryError m e [], c')
      | (Inr [], c') \<Rightarrow> (RetryOk, c')
      | (Inr (gw # rest), c') \<Rightarrow> (vpnDeleteGuard k gw, c'))"

definition vpnDeleteTunnelCheck ::
  "meta \<Rightarrow> 'w VpnApi \<Rightarrow> (string \<times> string list) list \<Rightarrow> 'w ctx \<Rightarrow> retry_result \<times> 'w ctx" where
  "vpnDeleteTunnelCheck m client filters c =
     (case call ''DescribeVpnConnections'' (DescribeVpnConnections client filters 0) c of
        (Inl e, c') \<Rightarrow> (retryError m e [], c')
      | (Inr vpnConnectionSet, c') \<Rightarrow>
          (if length vpnConnectionSet = 0 then (RetryOk, c')
           else (NonRetryableError
                   (Errorf (''There is associated tunnel exists, please delete ''
                              @ ''associated tunnels first.'')), c')))"

definition vpnDeletePoll ::
  "meta \<Rightarrow> pkg \<Rightarrow> 'w VpnApi \<Rightarrow> string \<Rightarrow> 'w ctx \<Rightarrow> retry_result \<times> 'w ctx" where
  "vpnDeletePoll m k client gatewayId c =
     (case call ''DescribeVpnGateways'' (DescribeVpnGateways client [gatewayId]) c of
        (Inl e, c') \<Rightarrow>
          (case e of
             SdkError code msg \<Rightarrow>
               (if code = VPCNotFound k then (RetryOk, c') else (retryError m e [], c'))
           | _ \<Rightarrow> (retryError m e [], c'))
      | (Inr vpnGatewaySet, c') \<Rightarrow>
          (if length vpnGatewaySet = 0 then (RetryOk, c')
           else (RetryableError (Errorf ''deleting retry''), c')))"

definition resourceTencentCloudVpnGatewayDelete ::
  "meta \<Rightarrow> pkg \<Rightarrow> 'w VpnApi \<Rightarrow> 'w ctx \<Rightarrow> error option \<times> 'w ctx" where
  "resourceTencentCloudVpnGatewayDelete m k client c =
     (let gatewayId = rid (rd c) in
      case Retry (readRetryTimeout m) (vpnDeleteCheck m k client gatewayId) c of
        (Some vpngwErr, c1) \<Rightarrow> (Some vpngwErr, c1)
      | (None, c1) \<Rightarrow>
          (let filters =
                 [(''vpn-gateway-id'', [gatewayId])]
                 @ (case GetOkString (rd c1) ''vpc_id'' of
                      Some v \<Rightarrow> [(''vpc-id'', [v])]
                    | None \<Rightarrow> [])
           in case Retry (readRetryTimeout m) (vpnDeleteTunnelCheck m client filters) c1 of
                (Some tErr, c2) \<Rightarrow> (Some tErr, c2)
              | (None, c2) \<Rightarrow>
                  (case Retry (writeRetryTimeout m)
                          (attempt m [] ''DeleteVpnGateway''
                             (DeleteVpnGateway client gatewayId)) c2 of
                     (Some err, c3) \<Rightarrow> (Some err, c3)
                   | (None, c3) \<Rightarrow>
                       Retry (readRetryTimeout m) (vpnDeletePoll m k client gatewayId) c3)))"

section \<open>DBbrain security audit log export tasks data source\<close>

record SecLogExportTaskInfo =
  AsyncRequestId :: "nat option"
  StartTime :: "string option"
  EndTime :: "string option"
  CreateTime :: "string option"
  Status :: "string option"
  Progress :: "nat option"
  LogStartTime :: "string option"
  LogEndTime :: "string option"
  TotalSize :: "nat option"
  DangerLevels :: "int list option"

text \<open>
  The service call takes the three filters of \<open>paramMap\<close>; a nil slice of tasks is
  \<open>None\<close>. \<open>writeToFile\<close> acts on the same outside world.
\<close>

record 'w DbbrainService =
  DescribeDbbrainSecurityAuditLogExportTasksByFilter ::
    "string option \<Rightarrow> string option \<Rightarrow> nat list option \<Rightarrow> 'w
       \<Rightarrow> (error + SecLogExportTaskInfo list option) \<times> 'w"
  writeToFile :: "string \<Rightarrow> attr \<Rightarrow> 'w \<Rightarrow> error option \<times> 'w"

text \<open>\<open>helper.UInt64ToStr\<close>: the decimal digits of an unsigned number.\<close>

definition digit :: "nat \<Rightarrow> char" where
  "digit n = ''0123456789'' ! n"

fun UInt64ToStr :: "nat \<Rightarrow> string" where
  "UInt64ToStr n =
     (if n < 10 then [digit n] else UInt64ToStr (n div 10) @ [digit (n mod 10)])"

declare UInt64ToStr.simps [simp del]

definition optField :: "string \<Rightarrow> attr option \<Rightarrow> (string \<times> attr) list" where
  "optField key v = (case v of None \<Rightarrow> [] | Some x \<Rightarrow> [(key, x)])"

definition taskMapOf :: "SecLogExportTaskInfo \<Rightarrow> (string \<times> attr) list" where
  "taskMapOf task =
     optField ''async_request_id'' (map_option (\<lambda>n. VInt (int n)) (AsyncRequestId task))
     @ optField ''start_time'' (map_option VString (StartTime task))
     @ optField ''end_time'' (map_option VString (EndTime task))
     @ optField ''create_time'' (map_option VString (CreateTime task))
     @ optField ''status'' (map_option VString (Status task))
     @ optField ''progress'' (map_option (\<lambda>n. VInt (int n)) (Progress task))
     @ optField ''log_start_time'' (map_option VString (LogStartTime task))
     @ optField ''log_end_time'' (map_option VString (LogEndTime task))
     @ optField ''total_size'' (map_option (\<lambda>n. VInt (int n)) (TotalSize task))
     @ optField ''danger_levels'' (map_option VInts (DangerLevels task))"

text \<open>
  The loop over the tasks: each round builds the task's map under nil guards and then
  appends the identifier, dereferencing \<open>AsyncRequestId\<close>.
\<close>

fun tasksLoop ::
  "string \<Rightarrow> SecLogExportTaskInfo list \<Rightarrow> string list \<times> (string \<times> attr) list list
     \<Rightarrow> error + string list \<times> (string \<times> attr) list list" where
  "tasksLoop sag_id [] acc = Inr acc"
| "tasksLoop sag_id (task # rest) acc =
     (let taskMap = taskMapOf task in
      case AsyncRequestId task of
        None \<Rightarrow> Inl NilPointerPanic
      | Some a \<Rightarrow>
          tasksLoop sag_id rest
            (fst acc @ [sag_id @ FILED_SP @ UInt64ToStr a], snd acc @ [taskMap]))"

definition dbbrainTasksAttempt ::
  "meta \<Rightarrow> 'w DbbrainService \<Rightarrow> string option \<Rightarrow> string option \<Rightarrow> nat list option
     \<Rightarrow> SecLogExportTaskInfo list option \<times> 'w ctx
     \<Rightarrow> retry_result \<times> SecLogExportTaskInfo list option \<times> 'w ctx" where
  "dbbrainTasksAttempt m service sag product ids s =
     (case call ''DescribeDbbrainSecurityAuditLogExportTasksByFilter''
             (DescribeDbbrainSecurityAuditLogExportTasksByFilter service sag product ids)
             (snd s) of
        (Inl e, c') \<Rightarrow> (retryError m e [], (fst s, c'))
      | (Inr results, c') \<Rightarrow> (RetryOk, (results, c')))"

definition dbbrainOutput ::
  "'w DbbrainService \<Rightarrow> (string \<times> attr) list list \<Rightarrow> 'w ctx \<Rightarrow> error option \<times> 'w ctx" where
  "dbbrainOutput service taskList c =
     (case GetOkString (rd c) ''result_output_file'' of
        Some output \<Rightarrow> call ''writeToFile'' (writeToFile service output (VObjs taskList)) c
      | None \<Rightarrow> (None, c))"

definition dataSourceTencentCloudDbbrainSecurityAuditLogExportTasksRead ::
  "meta \<Rightarrow> pkg \<Rightarrow> 'w DbbrainService \<Rightarrow> 'w ctx \<Rightarrow> error option \<times> 'w ctx" where
  "dataSourceTencentCloudDbbrainSecurityAuditLogExportTasksRead m k service c =
     (let sag_id =
            (case GetOkString (rd c) ''sec_audit_group_id'' of Some v \<Rightarrow> v | None \<Rightarrow> []);
          async_request_ids =
            (case GetOk (rd c) ''async_request_ids'' of
               Some (VInts xs) \<Rightarrow> Some (map uint64 xs)
             | _ \<Rightarrow> None)
      in case Retry (readRetryTimeout m)
                (dbbrainTasksAttempt m service (GetOkString (rd c) ''sec_audit_group_id'')
                   (GetOkString (rd c) ''product'') async_request_ids)
                (None, c) of
           (Some err, (tasks, c1)) \<Rightarrow> (Some err, c1)
         | (None, (None, c1)) \<Rightarrow> dbbrainOutput service [] c1
         | (None, (Some tasks, c1)) \<Rightarrow>
             (case tasksLoop sag_id tasks ([], []) of
                Inl err \<Rightarrow> (Some err, c1)
              | Inr (ids, taskList) \<Rightarrow>
                  dbbrainOutput service taskList
                    (dSet ''list'' (Some (VObjs taskList))
                       (SetId (DataResourceIdsHash k ids) c1))))"


section \<open>Concrete vendors\<close>

text \<open>
  Small vendors on which the operations are run: every call answers at once and the
  remote state is trivial.
\<close>

definition demoMeta :: meta where
  "demoMeta =
     \<lparr>readRetryTimeout = 2, writeRetryTimeout = 2,
      retryableErrorCode = [''RequestLimitExceeded''],
      isExpectError = (\<lambda>e codes. case e of SdkError code msg \<Rightarrow> code \<in> set codes | _ \<Rightarrow> False),
      Region = ''ap-guangzhou''\<rparr>"

definition mariadbDemo :: "unit MariadbService" where
  "mariadbDemo =
     \<lparr>AssociateSecurityGroups = (\<lambda>ids sg product w. (None, w)),
      DescribeMariadbSecurityGroup =
        (\<lambda>instanceId sg product w.
           (Inr (Some \<lparr>SecurityGroupId = Some sg, SecurityGroupName = Some ''default''\<rparr>), w)),
      ModifyDBInstanceSecurityGroups = (\<lambda>instanceId sgs product w. (None, w)),
      DeleteMariadbSecurityGroupsById = (\<lambda>instanceId sg product w. (None, w))\<rparr>"

definition mariadbConfig :: ResourceData where
  "mariadbConfig =
     \<lparr>rid = ''tdsql-4pzs5b67'', prior = Map.empty,
      vals = [''instance_id'' \<mapsto> VString ''tdsql-4pzs5b67'',
              ''security_group_id'' \<mapsto> VString ''sg-7kpsbxdb'',
              ''product'' \<mapsto> VString ''mariadb'']\<rparr>"

definition start :: "ResourceData \<Rightarrow> unit ctx" where
  "start d = \<lparr>rd = d, remote = (), trace = []\<rparr>"




definition demoPkg :: pkg where
  "demoPkg =
     \<lparr>VPC_SERVICE_TYPE = ''vpc'', EIP_RESOURCE_TYPE = ''eip'',
      EIP_STATUS_CREATING = ''CREATING'', VPN_STATE_AVAILABLE = ''AVAILABLE'',
      VPN_CHARGE_TYPE_PREPAID = ''PREPAID'',
      VPN_CHARGE_TYPE_POSTPAID_BY_HOUR = ''POSTPAID_BY_HOUR'',
      GATE_WAY_TYPE_CCN = ''CCN'', VPCNotFound = ''ResourceNotFound'',
      timeParse = (\<lambda>s. if s = ''2030-01-01 00:00:00'' then Inr 1893456000
                        else Inl (Errorf ''parsing time'')),
      timeNow = 1700000000,
      DataResourceIdsHash = concat\<rparr>"

definition demoGateway :: VpnGateway where
  "demoGateway =
     \<lparr>VpnGatewayId = Some ''vpngw-8ccsnclt'', VpnGatewayName = Some ''test'',
      PublicIpAddress = Some ''1.2.3.4'', InternetMaxBandwidthOut = Some 5,
      Type = Some ''IPSEC'', CreatedTime = Some ''2023-01-01 00:00:00'',
      State = Some ''AVAILABLE'', RenewFlag = Some ''NOTIFY_AND_MANUAL_RENEW'',
      InstanceChargeType = Some ''POSTPAID_BY_HOUR'', ExpiredTime = Some ''0000-00-00 00:00:00'',
      IsAddressBlocked = Some False, NewPurchasePlan = Some [], RestrictState = Some ''NORMAL'',
      Zone = Some ''ap-guangzhou-3'', CdcId = Some [], MaxConnection = Some 0,
      NetworkInstanceId = Some []\<rparr>"

definition vpnDemo :: "VpnGateway \<Rightarrow> VpnConnection list \<Rightarrow> unit VpnApi" where
  "vpnDemo gw tunnels =
     \<lparr>CreateVpnGateway = (\<lambda>request w. (Inr (Some gw), w)),
      DescribeVpnGateways = (\<lambda>ids w. (Inr [gw], w)),
      DescribeVpngwById = (\<lambda>gatewayId w. (Inr (True, gw), w)),
      SetVpnGatewaysRenewFlag = (\<lambda>ids flag w. (None, w)),
      ModifyVpnGatewayAttribute = (\<lambda>gatewayId name chargeType w. (None, w)),
      ResetVpnGatewayInternetMaxBandwidth = (\<lambda>gatewayId bandwidth w. (None, w)),
      DescribeVpnConnections = (\<lambda>filters offset w. (Inr tunnels, w)),
      DeleteVpnGateway = (\<lambda>gatewayId w. (None, w))\<rparr>"

definition tagDemo :: "unit TagService" where
  "tagDemo =
     \<lparr>ModifyTags = (\<lambda>resourceName replaceTags deleteTags w. (None, w)),
      DescribeResourceTags =
        (\<lambda>serviceType resourceType region ident w. (Inr [(''createdBy'', ''terraform'')], w))\<rparr>"

definition vpnState :: ResourceData where
  "vpnState =
     \<lparr>rid = ''vpngw-8ccsnclt'',
      prior = [''name'' \<mapsto> VString ''test'', ''cdc_id'' \<mapsto> VString ''cdc-1'',
               ''bandwidth'' \<mapsto> VInt 5, ''zone'' \<mapsto> VString ''ap-guangzhou-3'',
               ''vpc_id'' \<mapsto> VString ''vpc-dk8zmwuf'',
               ''charge_type'' \<mapsto> VString ''POSTPAID_BY_HOUR''],
      vals = [''name'' \<mapsto> VString ''renamed'', ''cdc_id'' \<mapsto> VString ''cdc-2'',
              ''bandwidth'' \<mapsto> VInt 5, ''zone'' \<mapsto> VString ''ap-guangzhou-3'',
              ''vpc_id'' \<mapsto> VString ''vpc-dk8zmwuf'',
              ''charge_type'' \<mapsto> VString ''POSTPAID_BY_HOUR'']\<rparr>"

definition mariadbState :: ResourceData where
  "mariadbState =
     \<lparr>rid = ''tdsql-4pzs5b67#sg-7kpsbxdb#mariadb'', prior = Map.empty, vals = Map.empty\<rparr>"

definition dbbrainDemo :: "SecLogExportTaskInfo list \<Rightarrow> unit DbbrainService" where
  "dbbrainDemo tasks =
     \<lparr>DescribeDbbrainSecurityAuditLogExportTasksByFilter =
        (\<lambda>sag product ids w. (Inr (Some tasks), w)),
      writeToFile = (\<lambda>path content w. (None, w))\<rparr>"

definition demoTask :: "nat option \<Rightarrow> SecLogExportTaskInfo" where
  "demoTask a =
     \<lparr>AsyncRequestId = a, StartTime = None, EndTime = None, CreateTime = None,
      Status = Some ''success'', Progress = None, LogStartTime = None, LogEndTime = None,
      TotalSize = None, DangerLevels = None\<rparr>"

definition dbbrainConfig :: ResourceData where
  "dbbrainConfig =
     \<lparr>rid = [], prior = Map.empty,
      vals = [''sec_audit_group_id'' \<mapsto> VString ''sag-01z37l4g'',
              ''product'' \<mapsto> VString ''mysql'']\<rparr>"

definition mariadbAbsent :: "unit MariadbService" where
  "mariadbAbsent =
     mariadbDemo\<lparr>DescribeMariadbSecurityGroup := (\<lambda>instanceId sg product w. (Inr None, w))\<rparr>"




text \<open>The identifiers stored by \<open>SetId\<close> along a trace, in order.\<close>

definition setIds :: "event list \<Rightarrow> string list" where
  "setIds tr = concat (map (\<lambda>e. case e of SetIdEv i \<Rightarrow> [i] | Api n \<Rightarrow> []) tr)"

definition demoSnapshot :: SnapshotInfo where
  "demoSnapshot =
     \<lparr>FileSystemId = Some ''cfs-iobiaxtj'', SnapshotName = Some ''test'',
      SnapshotInfo.Status = Some ''available''\<rparr>"

definition cfsDemo :: "unit CfsService" where
  "cfsDemo =
     \<lparr>CreateCfsSnapshot = (\<lambda>fileSystemId name w. (Inr (Some ''snap-b4vu9k2s''), w)),
      CfsSnapshotWaitForState = (\<lambda>snapshotId timeout w. (None, w)),
      DescribeCfsSnapshotById = (\<lambda>snapshotId w. (Inr (Some demoSnapshot), w)),
      UpdateCfsSnapshotAttribute = (\<lambda>snapshotId name w. (None, w)),
      DeleteCfsSnapshotById = (\<lambda>snapshotId w. (None, w))\<rparr>"

definition cfsConfig :: ResourceData where
  "cfsConfig =
     \<lparr>rid = [], prior = Map.empty,
      vals = [''file_system_id'' \<mapsto> VString ''cfs-iobiaxtj'',
              ''snapshot_name'' \<mapsto> VString ''test'',
              ''tags'' \<mapsto> VMap [(''createdBy'', ''terraform'')]]\<rparr>"

definition demoAddress :: Address where
  "demoAddress =
     \<lparr>AddressName = Some ''test'', AddressType = Some ''EIP'', AddressIp = Some ''1.2.3.4'',
      AddressStatus = Some ''UNBIND'',
      InternetChargeType = Some ''TRAFFIC_POSTPAID_BY_HOUR''\<rparr>"

definition eipDemo :: "unit EipApi" where
  "eipDemo =
     \<lparr>AllocateAddresses = (\<lambda>request w. (Inr [Some ''eip-a1b2c3d4''], w)),
      DescribeEipById = (\<lambda>eipId w. (Inr (Some demoAddress), w)),
      ModifyEipName = (\<lambda>eipId name w. (None, w)),
      ModifyEipBandwidthOut = (\<lambda>eipId bandwidth w. (None, w)),
      DescribeVpcBandwidthPackageByEip = (\<lambda>eipId w. (Inr None, w)),
      UnattachEip = (\<lambda>eipId w. (None, w)),
      DeleteEip = (\<lambda>eipId w. (None, w))\<rparr>"

definition eipConfig :: ResourceData where
  "eipConfig =
     \<lparr>rid = [], prior = Map.empty,
      vals = [''name'' \<mapsto> VString ''test'', ''type'' \<mapsto> VString ''EIP'',
              ''tags'' \<mapsto> VMap [(''createdBy'', ''terraform'')]]\<rparr>"

definition demoConfig :: Config where
  "demoConfig =
     \<lparr>ConfigId = Some ''dcfg-y4e3zngv'', ConfigName = Some ''test-2'',
      ConfigVersion = Some ''1.0'', ConfigValue = Some ''name: test'',
      ApplicationId = Some ''application-ym9mxmza'', ConfigVersionDesc = Some ''test2'',
      ConfigType = None\<rparr>"

definition tsfDemo :: "unit TsfService" where
  "tsfDemo =
     \<lparr>CreateConfig = (\<lambda>request encodeWithBase64 programIdList w. (Inr (Some True), w)),
      DescribeTsfApplicationConfigById = (\<lambda>configId configName w. (Inr (Some demoConfig), w)),
      DeleteTsfApplicationConfigById = (\<lambda>configId w. (None, w))\<rparr>"

definition tsfConfig :: ResourceData where
  "tsfConfig =
     \<lparr>rid = [], prior = Map.empty,
      vals = [''config_name'' \<mapsto> VString ''test-2'', ''config_version'' \<mapsto> VString ''1.0'',
              ''config_value'' \<mapsto> VString ''name: test'',
              ''application_id'' \<mapsto> VString ''application-ym9mxmza'',
              ''config_version_desc'' \<mapsto> VString ''test2'',
              ''encode_with_base64'' \<mapsto> VBool False]\<rparr>"

definition vpnConfig :: ResourceData where
  "vpnConfig =
     \<lparr>rid = [], prior = Map.empty,
      vals = [''name'' \<mapsto> VString ''test'', ''vpc_id'' \<mapsto> VString ''vpc-dk8zmwuf'',
              ''bandwidth'' \<mapsto> VInt 5, ''zone'' \<mapsto> VString ''ap-guangzhou-3'',
              ''charge_type'' \<mapsto> VString ''POSTPAID_BY_HOUR'',
              ''tags'' \<mapsto> VMap [(''test'', ''test'')]]\<rparr>"



text \<open>
  Vendors with a state: the remote object exists after the create call and is gone after
  the delete call.
\<close>

definition startIn :: "'w \<Rightarrow> ResourceData \<Rightarrow> 'w ctx" where
  "startIn w d = \<lparr>rd = d, remote = w, trace = []\<rparr>"

definition cfsLive :: "bool CfsService" where
  "cfsLive =
     \<lparr>CreateCfsSnapshot = (\<lambda>fileSystemId name w. (Inr (Some ''snap-b4vu9k2s''), True)),
      CfsSnapshotWaitForState = (\<lambda>snapshotId timeout w. (None, w)),
      DescribeCfsSnapshotById =
        (\<lambda>snapshotId w. (Inr (if w then Some demoSnapshot else None), w)),
      UpdateCfsSnapshotAttribute = (\<lambda>snapshotId name w. (None, w)),
      DeleteCfsSnapshotById = (\<lambda>snapshotId w. (None, False))\<rparr>"

definition eipLive :: "bool EipApi" where
  "eipLive =
     \<lparr>AllocateAddresses = (\<lambda>request w. (Inr [Some ''eip-a1b2c3d4''], True)),
      DescribeEipById = (\<lambda>eipId w. (Inr (if w then Some demoAddress else None), w)),
      ModifyEipName = (\<lambda>eipId name w. (None, w)),
      ModifyEipBandwidthOut = (\<lambda>eipId bandwidth w. (None, w)),
      DescribeVpcBandwidthPackageByEip = (\<lambda>eipId w. (Inr None, w)),
      UnattachEip = (\<lambda>eipId w. (None, w)),
      DeleteEip = (\<lambda>eipId w. (None, False))\<rparr>"

definition vpnLive :: "bool VpnApi" where
  "vpnLive =
     \<lparr>CreateVpnGateway = (\<lambda>request w. (Inr (Some demoGateway), True)),
      DescribeVpnGateways = (\<lambda>ids w. (Inr (if w then [demoGateway] else []), w)),
      DescribeVpngwById = (\<lambda>gatewayId w. (Inr (w, demoGateway), w)),
      SetVpnGatewaysRenewFlag = (\<lambda>ids flag w. (None, w)),
      ModifyVpnGatewayAttribute = (\<lambda>gatewayId name chargeType w. (None, w)),
      ResetVpnGatewayInternetMaxBandwidth = (\<lambda>gatewayId bandwidth w. (None, w)),
      DescribeVpnConnections = (\<lambda>filters offset w. (Inr [], w)),
      DeleteVpnGateway = (\<lambda>gatewayId w. (None, False))\<rparr>"

section \<open>Properties of the shared operations\<close>

lemmas demo_simps =
  demoMeta_def start_def call_def attempt_def retryError_def SetId_def dSet_def
  dSetIfNotNil_def GetOk_def GetOkString_def GetOkInt_def GetString_def GetInt_def GetTags_def
  HasChange_def getValue_def is_zero_def Let_def FILED_SP_def Split_def

text \<open>
  Equations for evaluation in which the context occurs once, so that a chain of
  \<open>d.Set\<close> calls evaluates in linear time.
\<close>

lemma dSet_code [code]: "dSet k v c = rd_update (vals_update (\<lambda>lvl. lvl(k := v))) c"
  by (simp add: dSet_def)

lemma SetId_code [code]:
  "SetId v c = trace_update (\<lambda>t. t @ [SetIdEv v]) (rd_update (rid_update (\<lambda>i. v)) c)"
  by (simp add: SetId_def)

lemma call_code [code]:
  "call name f c =
     (case f (remote c) of
        (r, w') \<Rightarrow> (r, trace_update (\<lambda>t. t @ [Api name]) (remote_update (\<lambda>w. w') c)))"
  by (cases c) (simp add: call_def split: prod.splits)

lemma call_rd: "rd (snd (call name f c)) = rd c"
  by (simp add: call_def split: prod.splits)

lemma call_trace: "trace (snd (call name f c)) = trace c @ [Api name]"
  by (simp add: call_def split: prod.splits)

lemma call_remote: "remote (snd (call name f c)) = snd (f (remote c))"
  by (simp add: call_def split: prod.splits)

lemma call_fst: "fst (call name f c) = fst (f (remote c))"
  by (simp add: call_def split: prod.splits)


lemma Retry_ok_last:
  assumes step: "\<And>s. P s \<Longrightarrow> P (snd (f s))"
  shows "P s \<Longrightarrow> fst (Retry n f s) = None
           \<Longrightarrow> \<exists>s1. P s1 \<and> f s1 = (RetryOk, snd (Retry n f s))"
proof (induction n arbitrary: s)
  case 0
  then show ?case
    by (cases "f s") (auto split: retry_result.splits)
next
  case (Suc n)
  show ?case
  proof (cases "f s")
    case (Pair r s')
    show ?thesis
    proof (cases r)
      case RetryOk
      with Pair Suc.prems show ?thesis by auto
    next
      case (RetryableError e)
      from step [OF Suc.prems(1)] Pair have "P s'" by simp
      moreover from Suc.prems(2) Pair RetryableError have "fst (Retry n f s') = None" by simp
      ultimately obtain s1 where "P s1" "f s1 = (RetryOk, snd (Retry n f s'))"
        using Suc.IH by blast
      with Pair RetryableError show ?thesis by auto
    next
      case (NonRetryableError e)
      with Pair Suc.prems show ?thesis by auto
    qed
  qed
qed


lemma Retry_trace:
  assumes step: "\<And>s. T (snd (f s)) = T s @ [e]"
  shows "\<exists>j\<le>n. T (snd (Retry n f s)) = T s @ replicate (Suc j) e"
proof (induction n arbitrary: s)
  case 0
  have "T (snd (f s)) = T s @ replicate (Suc 0) e" using step by simp
  then have "T (snd (Retry 0 f s)) = T s @ replicate (Suc 0) e"
    by (cases "f s") (auto split: retry_result.splits)
  then show ?case by blast
next
  case (Suc n)
  obtain r s' where fs: "f s = (r, s')" by (cases "f s")
  have s': "T s' = T s @ replicate (Suc 0) e" using step [of s] fs by simp
  show ?case
  proof (cases r)
    case (RetryableError err)
    from Suc.IH [of s'] obtain j where j: "j \<le> n"
      and "T (snd (Retry n f s')) = T s' @ replicate (Suc j) e"
      by blast
    with s' have "T (snd (Retry n f s')) = T s @ replicate (Suc (Suc j)) e"
      by simp
    with fs RetryableError have "T (snd (Retry (Suc n) f s)) = T s @ replicate (Suc (Suc j)) e"
      by simp
    with j show ?thesis by (intro exI [of _ "Suc j"]) simp
  next
    case RetryOk
    with fs s' have "T (snd (Retry (Suc n) f s)) = T s @ replicate (Suc 0) e" by simp
    then show ?thesis by (intro exI [of _ 0]) simp
  next
    case (NonRetryableError err)
    with fs s' have "T (snd (Retry (Suc n) f s)) = T s @ replicate (Suc 0) e" by simp
    then show ?thesis by (intro exI [of _ 0]) simp
  qed
qed


lemma attempt_trace: "trace (snd (attempt m extra name f c)) = trace c @ [Api name]"
  by (simp add: attempt_def call_def split: prod.splits option.splits)



section \<open>Composite identifier of the MariaDB security groups\<close>

lemma mariadb_Read_keeps_id:
  "fst (resourceTencentCloudMariadbSecurityGroupsRead service c) = None
     \<Longrightarrow> rid (rd (snd (resourceTencentCloudMariadbSecurityGroupsRead service c))) = rid (rd c)"
  unfolding resourceTencentCloudMariadbSecurityGroupsRead_def Let_def
  by (cases "call ''DescribeMariadbSecurityGroup''
               (DescribeMariadbSecurityGroup service (Split (rid (rd c)) FILED_SP ! 0)
                  (Split (rid (rd c)) FILED_SP ! 1) (Split (rid (rd c)) FILED_SP ! 2)) c")
     (use call_rd [of "''DescribeMariadbSecurityGroup''"
               "DescribeMariadbSecurityGroup service (Split (rid (rd c)) FILED_SP ! 0)
                  (Split (rid (rd c)) FILED_SP ! 1) (Split (rid (rd c)) FILED_SP ! 2)" c]
       in \<open>auto simp: dSet_def split: sum.splits option.splits if_splits\<close>)


text \<open>
  Claim C7. For the MariaDB security-groups resource, a Create that succeeds leaves the
  identifier \<open>instanceId#securityGroupId#product\<close>, and Read, Update and Delete on an
  identifier that does not split into exactly three parts at \<open>#\<close> return the error
  \<open>id is broken\<close> with the context as it was: no call is issued, nothing is logged and
  the remote state is untouched.
\<close>

theorem mariadb_composite_id:
  "(fst (resourceTencentCloudMariadbSecurityGroupsCreate m service c) = None \<longrightarrow>
      rid (rd (snd (resourceTencentCloudMariadbSecurityGroupsCreate m service c)))
        = (case GetOkString (rd c) ''instance_id'' of Some v \<Rightarrow> v | None \<Rightarrow> [])
          @ ''#''
          @ (case GetOkString (rd c) ''security_group_id'' of Some v \<Rightarrow> v | None \<Rightarrow> [])
          @ ''#''
          @ (case GetOkString (rd c) ''product'' of Some v \<Rightarrow> v | None \<Rightarrow> []))
   \<and> (length (Split (rid (rd c)) ''#'') \<noteq> 3 \<longrightarrow>
        resourceTencentCloudMariadbSecurityGroupsRead service c
          = (Some (Errorf (''id is broken,'' @ rid (rd c))), c)
      \<and> resourceTencentCloudMariadbSecurityGroupsUpdate m service c
          = (Some (Errorf (''id is broken,'' @ rid (rd c))), c)
      \<and> resourceTencentCloudMariadbSecurityGroupsDelete service c
          = (Some (Errorf (''id is broken,'' @ rid (rd c))), c))"
proof (intro conjI impI)
  assume ok: "fst (resourceTencentCloudMariadbSecurityGroupsCreate m service c) = None"
  let ?f = "attempt m [] ''AssociateSecurityGroups''
              (AssociateSecurityGroups service
                 (case GetOkString (rd c) ''instance_id'' of Some v \<Rightarrow> [v] | None \<Rightarrow> [])
                 (GetOkString (rd c) ''security_group_id'')
                 (GetOkString (rd c) ''product''))"
  let ?id = "(case GetOkString (rd c) ''instance_id'' of Some v \<Rightarrow> v | None \<Rightarrow> [])
          @ FILED_SP
          @ (case GetOkString (rd c) ''security_group_id'' of Some v \<Rightarrow> v | None \<Rightarrow> [])
          @ FILED_SP
          @ (case GetOkString (rd c) ''product'' of Some v \<Rightarrow> v | None \<Rightarrow> [])"
  obtain r c1 where R: "Retry (writeRetryTimeout m) ?f c = (r, c1)"
    by (cases "Retry (writeRetryTimeout m) ?f c")
  have cr: "resourceTencentCloudMariadbSecurityGroupsCreate m service c
             = (case r of Some err \<Rightarrow> (Some err, c1)
                | None \<Rightarrow> resourceTencentCloudMariadbSecurityGroupsRead service (SetId ?id c1))"
    by (simp add: resourceTencentCloudMariadbSecurityGroupsCreate_def Let_def R
          split: option.splits)
  from ok cr have r: "r = None" by (cases r) simp_all
  with ok cr have "fst (resourceTencentCloudMariadbSecurityGroupsRead service (SetId ?id c1)) = None"
    by simp
  from mariadb_Read_keeps_id [OF this] cr r
  have "rid (rd (snd (resourceTencentCloudMariadbSecurityGroupsCreate m service c))) = ?id"
    by (simp add: SetId_def)
  then show "rid (rd (snd (resourceTencentCloudMariadbSecurityGroupsCreate m service c)))
        = (case GetOkString (rd c) ''instance_id'' of Some v \<Rightarrow> v | None \<Rightarrow> [])
          @ ''#''
          @ (case GetOkString (rd c) ''security_group_id'' of Some v \<Rightarrow> v | None \<Rightarrow> [])
          @ ''#''
          @ (case GetOkString (rd c) ''product'' of Some v \<Rightarrow> v | None \<Rightarrow> [])"
    by (simp add: FILED_SP_def)
qed (simp_all add: resourceTencentCloudMariadbSecurityGroupsRead_def
       resourceTencentCloudMariadbSecurityGroupsUpdate_def
       resourceTencentCloudMariadbSecurityGroupsDelete_def FILED_SP_def Let_def)

theorem mariadb_composite_id_witness:
  "fst (resourceTencentCloudMariadbSecurityGroupsCreate demoMeta mariadbDemo (start mariadbConfig))
     = None
   \<and> rid (rd (snd (resourceTencentCloudMariadbSecurityGroupsCreate demoMeta mariadbDemo
                     (start mariadbConfig))))
       = ''tdsql-4pzs5b67#sg-7kpsbxdb#mariadb''
   \<and> length (Split (rid (rd (start mariadbConfig))) ''#'') \<noteq> 3
   \<and> resourceTencentCloudMariadbSecurityGroupsRead mariadbDemo (start mariadbConfig)
       = (Some (Errorf ''id is broken,tdsql-4pzs5b67''), start mariadbConfig)
   \<and> resourceTencentCloudMariadbSecurityGroupsUpdate demoMeta mariadbDemo (start mariadbConfig)
       = (Some (Errorf ''id is broken,tdsql-4pzs5b67''), start mariadbConfig)
   \<and> resourceTencentCloudMariadbSecurityGroupsDelete mariadbDemo (start mariadbConfig)
       = (Some (Errorf ''id is broken,tdsql-4pzs5b67''), start mariadbConfig)"
proof -
  have ok: "fst (resourceTencentCloudMariadbSecurityGroupsCreate demoMeta mariadbDemo
                   (start mariadbConfig)) = None"
    by (simp add: resourceTencentCloudMariadbSecurityGroupsCreate_def
          resourceTencentCloudMariadbSecurityGroupsRead_def mariadbDemo_def mariadbConfig_def
          demo_simps numeral_2_eq_2)
  have broken: "length (Split (rid (rd (start mariadbConfig))) ''#'') \<noteq> 3"
    by (simp add: mariadbConfig_def start_def Split_def)
  have cfg: "rid (rd (start mariadbConfig)) = ''tdsql-4pzs5b67''"
    "GetOkString (rd (start mariadbConfig)) ''instance_id'' = Some ''tdsql-4pzs5b67''"
    "GetOkString (rd (start mariadbConfig)) ''security_group_id'' = Some ''sg-7kpsbxdb''"
    "GetOkString (rd (start mariadbConfig)) ''product'' = Some ''mariadb''"
    by (simp_all add: mariadbConfig_def start_def GetOkString_def GetOk_def is_zero_def)
  show ?thesis
    using mariadb_composite_id [of demoMeta mariadbDemo "start mariadbConfig"] ok broken
    by (simp add: cfg)
qed

section \<open>Read of an absent remote object\<close>

text \<open>
  Claim C1. For every resource type, Read on an identifier whose remote object is absent
  clears the identifier and returns without error. The MariaDB security-groups Read does
  clear the identifier but returns an error: run on a vendor that reports the security
  group \<open>sg-7kpsbxdb\<close> absent, it issues the describe call, sets the identifier to the
  empty string and returns \<open>resource `securityGroups` sg-7kpsbxdb does not exist\<close>.
\<close>

theorem mariadb_Read_absent_returns_error:
  "fst (resourceTencentCloudMariadbSecurityGroupsRead mariadbAbsent (start mariadbState))
     = Some (Errorf ''resource `securityGroups` sg-7kpsbxdb does not exist'')
   \<and> rid (rd (snd (resourceTencentCloudMariadbSecurityGroupsRead mariadbAbsent
                     (start mariadbState)))) = []
   \<and> trace (snd (resourceTencentCloudMariadbSecurityGroupsRead mariadbAbsent (start mariadbState)))
       = [Api ''DescribeMariadbSecurityGroup'', SetIdEv []]"
  by code_simp

section \<open>Update of an immutable attribute\<close>

text \<open>
  Claim C2. For every resource type, an Update whose changed attributes contain an
  immutable one returns an error without issuing any modify call. The VPN gateway Update
  checks \<open>cdc_id\<close> and \<open>max_connection\<close> only after the modify calls: with \<open>name\<close>
  and \<open>cdc_id\<close> both changed it issues \<open>ModifyVpnGatewayAttribute\<close> and then returns
  the error.
\<close>

theorem vpn_Update_modifies_before_rejecting_cdc_id:
  "HasChange vpnState ''name'' \<and> HasChange vpnState ''cdc_id''
   \<and> fst (resourceTencentCloudVpnGatewayUpdate demoMeta demoPkg (vpnDemo demoGateway []) tagDemo
            (start vpnState))
       = Some (Errorf ''cdc_id and max_connection do not support change now.'')
   \<and> trace (snd (resourceTencentCloudVpnGatewayUpdate demoMeta demoPkg (vpnDemo demoGateway [])
                    tagDemo (start vpnState)))
       = [Api ''ModifyVpnGatewayAttribute'']"
  by code_simp

theorem vpn_Update_modifies_before_rejecting_cdc_id_witness:
  "fst (resourceTencentCloudVpnGatewayUpdate demoMeta demoPkg (vpnDemo demoGateway []) tagDemo
          (start vpnState)) \<noteq> None
   \<and> Api ''ModifyVpnGatewayAttribute''
       \<in> set (trace (snd (resourceTencentCloudVpnGatewayUpdate demoMeta demoPkg
                             (vpnDemo demoGateway []) tagDemo (start vpnState))))"
  using vpn_Update_modifies_before_rejecting_cdc_id by simp

section \<open>The unguarded dereference of the export-tasks data source\<close>

lemma Retry_first_ok: "fst (f s) = RetryOk \<Longrightarrow> Retry n f s = (None, snd (f s))"
  by (cases n; cases "f s") simp_all

lemma tasksLoop_panics_iff:
  "(tasksLoop sag_id tasks acc = Inl NilPointerPanic)
     = (\<exists>t\<in>set tasks. AsyncRequestId t = None)"
  by (induction tasks arbitrary: acc) (auto simp: Let_def split: option.splits)

lemma tasksLoop_total:
  "\<forall>t\<in>set tasks. AsyncRequestId t \<noteq> None
     \<Longrightarrow> tasksLoop sag_id tasks acc
           = Inr (fst acc @ map (\<lambda>t. sag_id @ FILED_SP @ UInt64ToStr (the (AsyncRequestId t))) tasks,
                  snd acc @ map taskMapOf tasks)"
  by (induction tasks arbitrary: acc) (auto simp: Let_def split: option.splits)

text \<open>
  Claim C9. The loop of the DBbrain export-tasks Read dereferences \<open>AsyncRequestId\<close>
  without a nil guard: it panics exactly when some task of the answer has a nil
  \<open>AsyncRequestId\<close>; when every task has one, it returns the identifiers and the task
  maps whatever the other fields are, since each of those is read under a nil check. At
  the level of Read: when the vendor answers with tasks of which one has a nil
  \<open>AsyncRequestId\<close>, Read ends in the panic and leaves the resource data as it was.
\<close>

theorem dbbrain_AsyncRequestId_unguarded:
  "((tasksLoop sag_id tasks acc = Inl NilPointerPanic)
      = (\<exists>t\<in>set tasks. AsyncRequestId t = None))
   \<and> ((\<forall>t\<in>set tasks. AsyncRequestId t \<noteq> None) \<longrightarrow>
        tasksLoop sag_id tasks acc
          = Inr (fst acc @ map (\<lambda>t. sag_id @ ''#'' @ UInt64ToStr (the (AsyncRequestId t))) tasks,
                 snd acc @ map taskMapOf tasks))
   \<and> ((\<forall>sag product ids.
          fst (DescribeDbbrainSecurityAuditLogExportTasksByFilter service sag product ids (remote c))
            = Inr (Some tasks))
        \<and> (\<exists>t\<in>set tasks. AsyncRequestId t = None) \<longrightarrow>
        fst (dataSourceTencentCloudDbbrainSecurityAuditLogExportTasksRead m k service c)
          = Some NilPointerPanic
        \<and> rd (snd (dataSourceTencentCloudDbbrainSecurityAuditLogExportTasksRead m k service c))
          = rd c)"
proof (intro conjI impI)
  show "(tasksLoop sag_id tasks acc = Inl NilPointerPanic)
          = (\<exists>t\<in>set tasks. AsyncRequestId t = None)"
    by (rule tasksLoop_panics_iff)
next
  assume "\<forall>t\<in>set tasks. AsyncRequestId t \<noteq> None"
  from tasksLoop_total [OF this, of sag_id acc]
  show "tasksLoop sag_id tasks acc
          = Inr (fst acc @ map (\<lambda>t. sag_id @ ''#'' @ UInt64ToStr (the (AsyncRequestId t))) tasks,
                 snd acc @ map taskMapOf tasks)"
    by (simp add: FILED_SP_def)
next
  assume h: "(\<forall>sag product ids.
          fst (DescribeDbbrainSecurityAuditLogExportTasksByFilter service sag product ids (remote c))
            = Inr (Some tasks))
        \<and> (\<exists>t\<in>set tasks. AsyncRequestId t = None)"
  let ?ids = "(case GetOk (rd c) ''async_request_ids'' of
               Some (VInts xs) \<Rightarrow> Some (map uint64 xs) | _ \<Rightarrow> None)"
  let ?f = "dbbrainTasksAttempt m service (GetOkString (rd c) ''sec_audit_group_id'')
              (GetOkString (rd c) ''product'') ?ids"
  let ?sag = "(case GetOkString (rd c) ''sec_audit_group_id'' of Some v \<Rightarrow> v | None \<Rightarrow> [])"
  from h have d: "fst (DescribeDbbrainSecurityAuditLogExportTasksByFilter service
                    (GetOkString (rd c) ''sec_audit_group_id'')
                    (GetOkString (rd c) ''product'') ?ids (remote c)) = Inr (Some tasks)"
    by blast
  have f: "fst (?f (None, c)) = RetryOk" "fst (snd (?f (None, c))) = Some tasks"
    "rd (snd (snd (?f (None, c)))) = rd c"
    using d by (auto simp: dbbrainTasksAttempt_def call_def split: prod.splits sum.splits)
  from Retry_first_ok [of ?f "(None, c)", OF f(1)]
  have R: "Retry (readRetryTimeout m) ?f (None, c) = (None, snd (?f (None, c)))" .
  from h tasksLoop_panics_iff [of ?sag tasks "([], [])"]
  have p: "tasksLoop ?sag tasks ([], []) = Inl NilPointerPanic" by simp
  obtain x c1 where s: "snd (?f (None, c)) = (x, c1)" by (cases "snd (?f (None, c))")
  with f have x: "x = Some tasks" "rd c1 = rd c" by simp_all
  have "dataSourceTencentCloudDbbrainSecurityAuditLogExportTasksRead m k service c
          = (Some NilPointerPanic, c1)"
    unfolding dataSourceTencentCloudDbbrainSecurityAuditLogExportTasksRead_def Let_def
    by (simp add: R s x p)
  with x show "fst (dataSourceTencentCloudDbbrainSecurityAuditLogExportTasksRead m k service c)
          = Some NilPointerPanic"
    and "rd (snd (dataSourceTencentCloudDbbrainSecurityAuditLogExportTasksRead m k service c))
          = rd c"
    by simp_all
qed

theorem dbbrain_AsyncRequestId_unguarded_witness:
  "tasksLoop ''sag-01z37l4g'' [demoTask (Some 42), demoTask None] ([], []) = Inl NilPointerPanic
   \<and> tasksLoop ''sag-01z37l4g'' [demoTask (Some 42), demoTask (Some 7)] ([], [])
       = Inr ([''sag-01z37l4g#42'', ''sag-01z37l4g#7''],
              [[(''async_request_id'', VInt 42), (''status'', VString ''success'')],
               [(''async_request_id'', VInt 7), (''status'', VString ''success'')]])
   \<and> fst (dataSourceTencentCloudDbbrainSecurityAuditLogExportTasksRead demoMeta demoPkg
             (dbbrainDemo [demoTask (Some 42), demoTask None]) (start dbbrainConfig))
       = Some NilPointerPanic"
proof -
  have a: "\<exists>t\<in>set [demoTask (Some 42), demoTask None]. AsyncRequestId t = None"
    by (simp add: demoTask_def)
  have b: "\<forall>t\<in>set [demoTask (Some 42), demoTask (Some 7)]. AsyncRequestId t \<noteq> None"
    by (simp add: demoTask_def)
  have c: "\<forall>sag product ids.
          fst (DescribeDbbrainSecurityAuditLogExportTasksByFilter
                 (dbbrainDemo [demoTask (Some 42), demoTask None]) sag product ids
                 (remote (start dbbrainConfig)))
            = Inr (Some [demoTask (Some 42), demoTask None])"
    by (simp add: dbbrainDemo_def)
  have u: "UInt64ToStr 42 = ''42''" "UInt64ToStr 7 = ''7''"
    by code_simp+
  note T1 = dbbrain_AsyncRequestId_unguarded
         [of "''sag-01z37l4g''" "[demoTask (Some 42), demoTask None]" "([], [])"
             "dbbrainDemo [demoTask (Some 42), demoTask None]" "start dbbrainConfig"
             demoMeta demoPkg]
  note T2 = dbbrain_AsyncRequestId_unguarded
         [of "''sag-01z37l4g''" "[demoTask (Some 42), demoTask (Some 7)]" "([], [])"
             "dbbrainDemo [demoTask (Some 42), demoTask None]" "start dbbrainConfig"
             demoMeta demoPkg]
  have p1: "tasksLoop ''sag-01z37l4g'' [demoTask (Some 42), demoTask None] ([], [])
              = Inl NilPointerPanic"
    by (rule iffD2 [OF T1 [THEN conjunct1] a])
  from T2 [THEN conjunct2, THEN conjunct1, THEN mp, OF b]
  have p2: "tasksLoop ''sag-01z37l4g'' [demoTask (Some 42), demoTask (Some 7)] ([], [])
       = Inr ([''sag-01z37l4g#42'', ''sag-01z37l4g#7''],
              [[(''async_request_id'', VInt 42), (''status'', VString ''success'')],
               [(''async_request_id'', VInt 7), (''status'', VString ''success'')]])"
    by (simp add: u demoTask_def taskMapOf_def optField_def)
  have p3: "fst (dataSourceTencentCloudDbbrainSecurityAuditLogExportTasksRead demoMeta demoPkg
        (dbbrainDemo [demoTask (Some 42), demoTask None]) (start dbbrainConfig))
       = Some NilPointerPanic"
    by (rule T1 [THEN conjunct2, THEN conjunct2, THEN mp, OF conjI [OF c a], THEN conjunct1])
  from p1 p2 p3 show ?thesis by blast
qed

section \<open>Guards of the VPN gateway Delete\<close>




lemma vpnDeleteCheck_trace:
  "trace (snd (vpnDeleteCheck m k client g c)) = trace c @ [Api ''DescribeVpnGateways'']"
  by (simp add: vpnDeleteCheck_def call_def split: prod.splits sum.splits list.splits)

lemma vpnDeleteCheck_rd: "rd (snd (vpnDeleteCheck m k client g c)) = rd c"
  by (simp add: vpnDeleteCheck_def call_def split: prod.splits sum.splits list.splits)

lemma vpnDeleteTunnelCheck_trace:
  "trace (snd (vpnDeleteTunnelCheck m client fs c)) = trace c @ [Api ''DescribeVpnConnections'']"
  by (simp add: vpnDeleteTunnelCheck_def call_def split: prod.splits sum.splits)





section \<open>The course of Create\<close>

text \<open>
  For the three resources that assign tags in Create, every run is of one of three kinds:
  it fails before an identifier is stored; it fails after the identifier is stored and
  before Read; or it reaches Read, and then the calls before Read are the listed ones in
  the listed order.
\<close>

lemma setIds_simps [simp]:
  "setIds [] = []" "setIds (tr @ tr') = setIds tr @ setIds tr'"
  "setIds (Api n # tr) = setIds tr" "setIds (SetIdEv i # tr) = i # setIds tr"
  by (simp_all add: setIds_def)

lemma setIds_replicate [simp]: "setIds (replicate j (Api n)) = []"
  by (induction j) simp_all












lemma GetTags_rid [simp]: "GetTags (d\<lparr>rid := i\<rparr>) key = GetTags d key"
  by (simp add: GetTags_def)



lemma GetOkString_rid [simp]: "GetOkString (d\<lparr>rid := i\<rparr>) key = GetOkString d key"
  by (simp add: GetOkString_def GetOk_def)






lemma SetId_rd [simp]: "rd (SetId i c) = (rd c)\<lparr>rid := i\<rparr>"
  and SetId_trace [simp]: "trace (SetId i c) = trace c @ [SetIdEv i]"
  and SetId_remote [simp]: "remote (SetId i c) = remote c"
  by (simp_all add: SetId_def)







section \<open>Failure of the tag assignment in Create\<close>




section \<open>Delete and the absence of the remote object\<close>

text \<open>
  Claim C5 says that, for every resource type, Delete polls after the delete call until
  the remote object is confirmed absent, and does not return success while the object is
  still observable. The TSF application config Delete issues the delete call only: on a
  vendor that accepts the deletion but still shows the config, it returns success after
  that single call, and the config is still there to be described.
\<close>

theorem tsf_Delete_returns_while_observable:
  "fst (resourceTencentCloudTsfApplicationConfigDelete tsfDemo
          (start (tsfConfig\<lparr>rid := ''dcfg-y4e3zngv''\<rparr>))) = None
   \<and> trace (snd (resourceTencentCloudTsfApplicationConfigDelete tsfDemo
                    (start (tsfConfig\<lparr>rid := ''dcfg-y4e3zngv''\<rparr>))))
       = [Api ''DeleteTsfApplicationConfigById'']
   \<and> fst (DescribeTsfApplicationConfigById tsfDemo ''dcfg-y4e3zngv'' []
             (remote (snd (resourceTencentCloudTsfApplicationConfigDelete tsfDemo
                             (start (tsfConfig\<lparr>rid := ''dcfg-y4e3zngv''\<rparr>))))))
       = Inr (Some demoConfig)"
  by code_simp

lemma cfsDeletePoll_ok:
  "cfsDeletePoll m service i s1 = (RetryOk, s2)
     \<Longrightarrow> DescribeCfsSnapshotById service i (remote s1) = (Inr None, remote s2)"
  by (cases "DescribeCfsSnapshotById service i (remote s1)")
     (auto simp: cfsDeletePoll_def call_def retryError_def
        split: sum.splits option.splits if_splits)

lemma eipDeletePoll_ok:
  "eipDeletePoll m service i s1 = (RetryOk, s2)
     \<Longrightarrow> DescribeEipById service i (remote s1) = (Inr None, remote s2)"
  by (cases "DescribeEipById service i (remote s1)")
     (auto simp: eipDeletePoll_def call_def retryError_def
        split: sum.splits option.splits if_splits)

lemma vpnDeletePoll_ok:
  "vpnDeletePoll m k client i s1 = (RetryOk, s2)
     \<Longrightarrow> snd (DescribeVpnGateways client [i] (remote s1)) = remote s2
         \<and> (fst (DescribeVpnGateways client [i] (remote s1)) = Inr []
            \<or> (\<exists>msg. fst (DescribeVpnGateways client [i] (remote s1))
                        = Inl (SdkError (VPCNotFound k) msg)))"
  by (cases "DescribeVpnGateways client [i] (remote s1)")
     (auto simp: vpnDeletePoll_def call_def retryError_def
        split: sum.splits option.splits if_splits error.splits)

lemma cfs_Delete_confirms:
  assumes "fst (resourceTencentCloudCfsSnapshotDelete m service c) = None"
  shows "\<exists>w. DescribeCfsSnapshotById service (rid (rd c)) w
               = (Inr None, remote (snd (resourceTencentCloudCfsSnapshotDelete m service c)))"
proof -
  let ?i = "rid (rd c)"
  obtain r1 c1 where D: "call ''DeleteCfsSnapshotById'' (DeleteCfsSnapshotById service ?i) c = (r1, c1)"
    by (cases "call ''DeleteCfsSnapshotById'' (DeleteCfsSnapshotById service ?i) c")
  with assms have del: "resourceTencentCloudCfsSnapshotDelete m service c
      = Retry (2 * readRetryTimeout m) (cfsDeletePoll m service ?i) c1"
    by (cases r1) (simp_all add: resourceTencentCloudCfsSnapshotDelete_def Let_def)
  with assms have "fst (Retry (2 * readRetryTimeout m) (cfsDeletePoll m service ?i) c1) = None"
    by simp
  from Retry_ok_last [where P = "\<lambda>s. True", OF _ _ this]
  obtain s1 where "cfsDeletePoll m service ?i s1
      = (RetryOk, snd (Retry (2 * readRetryTimeout m) (cfsDeletePoll m service ?i) c1))"
    by blast
  from cfsDeletePoll_ok [OF this] del show ?thesis by auto
qed

lemma eip_Delete_confirms:
  assumes "fst (resourceTencentCloudEipDelete m service c) = None"
  shows "\<exists>w. DescribeEipById service (rid (rd c)) w
               = (Inr None, remote (snd (resourceTencentCloudEipDelete m service c)))"
proof -
  let ?i = "rid (rd c)"
  let ?u = "Retry (writeRetryTimeout m)
             (attempt m [''DesOperation.MutexTaskRunning''] ''UnattachEip''
                (UnattachEip service ?i)) c"
  obtain r1 c1 where U: "?u = (r1, c1)" by (cases ?u)
  let ?d = "Retry (writeRetryTimeout m)
                  (attempt m [''DesOperation.MutexTaskRunning''] ''DeleteEip''
                     (DeleteEip service ?i)) c1"
  obtain r2 c2 where D: "?d = (r2, c2)" by (cases ?d)
  from assms U D have del: "resourceTencentCloudEipDelete m service c
      = Retry (readRetryTimeout m) (eipDeletePoll m service ?i) c2"
    by (cases r1; cases r2) (simp_all add: resourceTencentCloudEipDelete_def Let_def)
  with assms have "fst (Retry (readRetryTimeout m) (eipDeletePoll m service ?i) c2) = None"
    by simp
  from Retry_ok_last [where P = "\<lambda>s. True", OF _ _ this]
  obtain s1 where "eipDeletePoll m service ?i s1
      = (RetryOk, snd (Retry (readRetryTimeout m) (eipDeletePoll m service ?i) c2))"
    by blast
  from eipDeletePoll_ok [OF this] del show ?thesis by auto
qed

lemma vpn_Delete_confirms:
  assumes "fst (resourceTencentCloudVpnGatewayDelete m k client c) = None"
  shows "\<exists>w. snd (DescribeVpnGateways client [rid (rd c)] w)
                 = remote (snd (resourceTencentCloudVpnGatewayDelete m k client c))
             \<and> (fst (DescribeVpnGateways client [rid (rd c)] w) = Inr []
                \<or> (\<exists>msg. fst (DescribeVpnGateways client [rid (rd c)] w)
                            = Inl (SdkError (VPCNotFound k) msg)))"
proof -
  let ?i = "rid (rd c)"
  obtain r1 c1 where R1: "Retry (readRetryTimeout m) (vpnDeleteCheck m k client ?i) c = (r1, c1)"
    by (cases "Retry (readRetryTimeout m) (vpnDeleteCheck m k client ?i) c")
  let ?fs = "[(''vpn-gateway-id'', [?i])]
                 @ (case GetOkString (rd c1) ''vpc_id'' of
                      Some v \<Rightarrow> [(''vpc-id'', [v])]
                    | None \<Rightarrow> [])"
  obtain r2 c2 where R2: "Retry (readRetryTimeout m) (vpnDeleteTunnelCheck m client ?fs) c1 = (r2, c2)"
    by (cases "Retry (readRetryTimeout m) (vpnDeleteTunnelCheck m client ?fs) c1")
  let ?d = "Retry (writeRetryTimeout m)
              (attempt m [] ''DeleteVpnGateway'' (DeleteVpnGateway client ?i)) c2"
  obtain r3 c3 where R3: "?d = (r3, c3)" by (cases ?d)
  from assms R1 R2 R3 have del: "resourceTencentCloudVpnGatewayDelete m k client c
      = Retry (readRetryTimeout m) (vpnDeletePoll m k client ?i) c3"
    by (cases r1; cases r2; cases r3)
       (simp_all add: resourceTencentCloudVpnGatewayDelete_def Let_def)
  with assms have "fst (Retry (readRetryTimeout m) (vpnDeletePoll m k client ?i) c3) = None"
    by simp
  from Retry_ok_last [where P = "\<lambda>s. True", OF _ _ this]
  obtain s1 where "vpnDeletePoll m k client ?i s1
      = (RetryOk, snd (Retry (readRetryTimeout m) (vpnDeletePoll m k client ?i) c3))"
    by blast
  from vpnDeletePoll_ok [OF this] del show ?thesis by auto
qed


lemma tsf_Delete_only_call:
  "trace (snd (resourceTencentCloudTsfApplicationConfigDelete tsf c))
     = trace c @ [Api ''DeleteTsfApplicationConfigById'']
   \<and> fst (resourceTencentCloudTsfApplicationConfigDelete tsf c)
       = fst (DeleteTsfApplicationConfigById tsf (rid (rd c)) (remote c))"
  by (simp add: resourceTencentCloudTsfApplicationConfigDelete_def call_def
        split: prod.splits)

lemma mariadb_Delete_only_call:
  "length (Split (rid (rd c)) ''#'') = 3 \<Longrightarrow>
   trace (snd (resourceTencentCloudMariadbSecurityGroupsDelete mariadb c))
     = trace c @ [Api ''DeleteMariadbSecurityGroupsById'']
   \<and> fst (resourceTencentCloudMariadbSecurityGroupsDelete mariadb c)
       = fst (DeleteMariadbSecurityGroupsById mariadb (Split (rid (rd c)) ''#'' ! 0)
                (Split (rid (rd c)) ''#'' ! 1) (Split (rid (rd c)) ''#'' ! 2) (remote c))"
  by (simp add: resourceTencentCloudMariadbSecurityGroupsDelete_def call_def FILED_SP_def
        Let_def split: prod.splits)

lemma attempt_ok:
  "attempt m extra name f s1 = (RetryOk, s2) \<Longrightarrow> fst (f (remote s1)) = None"
  by (cases "f (remote s1)")
     (auto simp: attempt_def call_def retryError_def split: option.splits if_splits)

lemma Retry_attempt_ok:
  assumes "fst (Retry n (attempt m extra name f) s) = None"
  shows "\<exists>w. fst (f w) = None"
proof -
  from Retry_ok_last [where P = "\<lambda>s. True", OF _ _ assms]
  obtain s1 where "attempt m extra name f s1 = (RetryOk, snd (Retry n (attempt m extra name f) s))"
    by blast
  from attempt_ok [OF this] show ?thesis by blast
qed

lemma cfsDeletePoll_trace:
  "trace (snd (cfsDeletePoll m service i c)) = trace c @ [Api ''DescribeCfsSnapshotById'']"
  by (simp add: cfsDeletePoll_def call_def split: prod.splits sum.splits option.splits)

lemma eipDeletePoll_trace:
  "trace (snd (eipDeletePoll m service i c)) = trace c @ [Api ''DescribeEipById'']"
  by (simp add: eipDeletePoll_def call_def split: prod.splits sum.splits option.splits)

lemma vpnDeletePoll_trace:
  "trace (snd (vpnDeletePoll m k client i c)) = trace c @ [Api ''DescribeVpnGateways'']"
  by (simp add: vpnDeletePoll_def call_def
        split: prod.splits sum.splits option.splits error.splits)

lemma cfs_Delete_course:
  assumes "fst (resourceTencentCloudCfsSnapshotDelete m service c) = None"
  shows "fst (DeleteCfsSnapshotById service (rid (rd c)) (remote c)) = None
     \<and> (\<exists>j\<le>2 * readRetryTimeout m.
           trace (snd (resourceTencentCloudCfsSnapshotDelete m service c))
             = trace c @ [Api ''DeleteCfsSnapshotById'']
                 @ replicate (Suc j) (Api ''DescribeCfsSnapshotById''))"
proof -
  let ?i = "rid (rd c)"
  let ?d = "call ''DeleteCfsSnapshotById'' (DeleteCfsSnapshotById service ?i) c"
  obtain r1 c1 where D: "?d = (r1, c1)" by (cases ?d)
  with assms have r1: "r1 = None"
    and del: "resourceTencentCloudCfsSnapshotDelete m service c
      = Retry (2 * readRetryTimeout m) (cfsDeletePoll m service ?i) c1"
    by (cases r1; simp add: resourceTencentCloudCfsSnapshotDelete_def Let_def)+
  from D r1 call_fst [of "''DeleteCfsSnapshotById''" "DeleteCfsSnapshotById service ?i" c]
  have ok: "fst (DeleteCfsSnapshotById service ?i (remote c)) = None" by simp
  from D call_trace [of "''DeleteCfsSnapshotById''" "DeleteCfsSnapshotById service ?i" c]
  have tr1: "trace c1 = trace c @ [Api ''DeleteCfsSnapshotById'']" by simp
  from Retry_trace [where T = trace and f = "cfsDeletePoll m service ?i"
         and e = "Api ''DescribeCfsSnapshotById''" and n = "2 * readRetryTimeout m" and s = c1]
  obtain j where "j \<le> 2 * readRetryTimeout m"
    "trace (snd (Retry (2 * readRetryTimeout m) (cfsDeletePoll m service ?i) c1))
       = trace c1 @ replicate (Suc j) (Api ''DescribeCfsSnapshotById'')"
    by (auto simp: cfsDeletePoll_trace)
  with tr1 del have "\<exists>j\<le>2 * readRetryTimeout m.
           trace (snd (resourceTencentCloudCfsSnapshotDelete m service c))
             = trace c @ [Api ''DeleteCfsSnapshotById'']
                 @ replicate (Suc j) (Api ''DescribeCfsSnapshotById'')"
    by (intro exI [of _ j]) simp
  with ok show ?thesis by blast
qed

lemma eip_Delete_course:
  assumes "fst (resourceTencentCloudEipDelete m service c) = None"
  shows "(\<exists>w. fst (DeleteEip service (rid (rd c)) w) = None)
     \<and> (\<exists>a\<le>writeRetryTimeout m. \<exists>b\<le>writeRetryTimeout m. \<exists>p\<le>readRetryTimeout m.
           trace (snd (resourceTencentCloudEipDelete m service c))
             = trace c @ replicate (Suc a) (Api ''UnattachEip'')
                 @ replicate (Suc b) (Api ''DeleteEip'')
                 @ replicate (Suc p) (Api ''DescribeEipById''))"
proof -
  let ?i = "rid (rd c)"
  let ?fu = "attempt m [''DesOperation.MutexTaskRunning''] ''UnattachEip'' (UnattachEip service ?i)"
  let ?fd = "attempt m [''DesOperation.MutexTaskRunning''] ''DeleteEip'' (DeleteEip service ?i)"
  obtain r1 c1 where U: "Retry (writeRetryTimeout m) ?fu c = (r1, c1)"
    by (cases "Retry (writeRetryTimeout m) ?fu c")
  obtain r2 c2 where D: "Retry (writeRetryTimeout m) ?fd c1 = (r2, c2)"
    by (cases "Retry (writeRetryTimeout m) ?fd c1")
  from assms U D have r: "r1 = None" "r2 = None"
    and del: "resourceTencentCloudEipDelete m service c
      = Retry (readRetryTimeout m) (eipDeletePoll m service ?i) c2"
    by (cases r1; cases r2; simp add: resourceTencentCloudEipDelete_def Let_def)+
  from D r have "fst (Retry (writeRetryTimeout m) ?fd c1) = None" by simp
  from Retry_attempt_ok [OF this]
  have ok: "\<exists>w. fst (DeleteEip service ?i w) = None" .
  from Retry_trace [where T = trace and f = ?fu and e = "Api ''UnattachEip''"
         and n = "writeRetryTimeout m" and s = c] U
  obtain a where a: "a \<le> writeRetryTimeout m"
    "trace c1 = trace c @ replicate (Suc a) (Api ''UnattachEip'')"
    by (auto simp: attempt_trace)
  from Retry_trace [where T = trace and f = ?fd and e = "Api ''DeleteEip''"
         and n = "writeRetryTimeout m" and s = c1] D
  obtain b where b: "b \<le> writeRetryTimeout m"
    "trace c2 = trace c1 @ replicate (Suc b) (Api ''DeleteEip'')"
    by (auto simp: attempt_trace)
  from Retry_trace [where T = trace and f = "eipDeletePoll m service ?i"
         and e = "Api ''DescribeEipById''" and n = "readRetryTimeout m" and s = c2]
  obtain p where p: "p \<le> readRetryTimeout m"
    "trace (snd (Retry (readRetryTimeout m) (eipDeletePoll m service ?i) c2))
       = trace c2 @ replicate (Suc p) (Api ''DescribeEipById'')"
    by (auto simp: eipDeletePoll_trace)
  from a b p del have "\<exists>a\<le>writeRetryTimeout m. \<exists>b\<le>writeRetryTimeout m. \<exists>p\<le>readRetryTimeout m.
           trace (snd (resourceTencentCloudEipDelete m service c))
             = trace c @ replicate (Suc a) (Api ''UnattachEip'')
                 @ replicate (Suc b) (Api ''DeleteEip'')
                 @ replicate (Suc p) (Api ''DescribeEipById'')"
    by (intro exI [of _ a] exI [of _ b] exI [of _ p] conjI) simp_all
  with ok show ?thesis by blast
qed

lemma vpn_Delete_course:
  assumes "fst (resourceTencentCloudVpnGatewayDelete m k client c) = None"
  shows "(\<exists>w. fst (DeleteVpnGateway client (rid (rd c)) w) = None)
     \<and> (\<exists>a\<le>readRetryTimeout m. \<exists>b\<le>readRetryTimeout m. \<exists>d\<le>writeRetryTimeout m.
         \<exists>p\<le>readRetryTimeout m.
           trace (snd (resourceTencentCloudVpnGatewayDelete m k client c))
             = trace c @ replicate (Suc a) (Api ''DescribeVpnGateways'')
                 @ replicate (Suc b) (Api ''DescribeVpnConnections'')
                 @ replicate (Suc d) (Api ''DeleteVpnGateway'')
                 @ replicate (Suc p) (Api ''DescribeVpnGateways''))"
proof -
  let ?i = "rid (rd c)"
  obtain r1 c1 where R1: "Retry (readRetryTimeout m) (vpnDeleteCheck m k client ?i) c = (r1, c1)"
    by (cases "Retry (readRetryTimeout m) (vpnDeleteCheck m k client ?i) c")
  let ?fs = "[(''vpn-gateway-id'', [?i])]
                 @ (case GetOkString (rd c1) ''vpc_id'' of
                      Some v \<Rightarrow> [(''vpc-id'', [v])]
                    | None \<Rightarrow> [])"
  obtain r2 c2 where R2: "Retry (readRetryTimeout m) (vpnDeleteTunnelCheck m client ?fs) c1 = (r2, c2)"
    by (cases "Retry (readRetryTimeout m) (vpnDeleteTunnelCheck m client ?fs) c1")
  let ?fd = "attempt m [] ''DeleteVpnGateway'' (DeleteVpnGateway client ?i)"
  obtain r3 c3 where R3: "Retry (writeRetryTimeout m) ?fd c2 = (r3, c3)"
    by (cases "Retry (writeRetryTimeout m) ?fd c2")
  from assms R1 R2 R3 have r: "r1 = None" "r2 = None" "r3 = None"
    and del: "resourceTencentCloudVpnGatewayDelete m k client c
      = Retry (readRetryTimeout m) (vpnDeletePoll m k client ?i) c3"
    by (cases r1; cases r2; cases r3;
        simp add: resourceTencentCloudVpnGatewayDelete_def Let_def)+
  from R3 r have "fst (Retry (writeRetryTimeout m) ?fd c2) = None" by simp
  from Retry_attempt_ok [OF this]
  have ok: "\<exists>w. fst (DeleteVpnGateway client ?i w) = None" .
  from Retry_trace [where T = trace and f = "vpnDeleteCheck m k client ?i"
         and e = "Api ''DescribeVpnGateways''" and n = "readRetryTimeout m" and s = c] R1
  obtain a where a: "a \<le> readRetryTimeout m"
    "trace c1 = trace c @ replicate (Suc a) (Api ''DescribeVpnGateways'')"
    by (auto simp: vpnDeleteCheck_trace)
  from Retry_trace [where T = trace and f = "vpnDeleteTunnelCheck m client ?fs"
         and e = "Api ''DescribeVpnConnections''" and n = "readRetryTimeout m" and s = c1] R2
  obtain b where b: "b \<le> readRetryTimeout m"
    "trace c2 = trace c1 @ replicate (Suc b) (Api ''DescribeVpnConnections'')"
    by (auto simp: vpnDeleteTunnelCheck_trace)
  from Retry_trace [where T = trace and f = ?fd and e = "Api ''DeleteVpnGateway''"
         and n = "writeRetryTimeout m" and s = c2] R3
  obtain d where d: "d \<le> writeRetryTimeout m"
    "trace c3 = trace c2 @ replicate (Suc d) (Api ''DeleteVpnGateway'')"
    by (auto simp: attempt_trace)
  from Retry_trace [where T = trace and f = "vpnDeletePoll m k client ?i"
         and e = "Api ''DescribeVpnGateways''" and n = "readRetryTimeout m" and s = c3]
  obtain p where p: "p \<le> readRetryTimeout m"
    "trace (snd (Retry (readRetryTimeout m) (vpnDeletePoll m k client ?i) c3))
       = trace c3 @ replicate (Suc p) (Api ''DescribeVpnGateways'')"
    by (auto simp: vpnDeletePoll_trace)
  from a b d p del have "\<exists>a\<le>readRetryTimeout m. \<exists>b\<le>readRetryTimeout m. \<exists>d\<le>writeRetryTimeout m.
         \<exists>p\<le>readRetryTimeout m.
           trace (snd (resourceTencentCloudVpnGatewayDelete m k client c))
             = trace c @ replicate (Suc a) (Api ''DescribeVpnGateways'')
                 @ replicate (Suc b) (Api ''DescribeVpnConnections'')
                 @ replicate (Suc d) (Api ''DeleteVpnGateway'')
                 @ replicate (Suc p) (Api ''DescribeVpnGateways'')"
    by (intro exI [of _ a] exI [of _ b] exI [of _ d] exI [of _ p] conjI) simp_all
  with ok show ?thesis by blast
qed

text \<open>
  Claim C5, amended. Delete of the CFS snapshot issues the delete call once and, when it
  answers nil, polls with at most \<open>2 * readRetryTimeout\<close> further describe calls; Delete
  of the EIP unattaches and deletes, each under the bounded write retry, and then polls
  under the bounded read retry; Delete of the VPN gateway checks the gateway and its
  tunnels, issues the delete call under the bounded write retry and then polls under the
  bounded read retry. Each of the three returns success only after these calls, in this
  order, with a delete call that answered nil and a last describe call that reported the
  object absent (for the VPN gateway: an empty set, or the not-found error). Delete of the
  MariaDB security groups and of the TSF application config issues the delete call once
  and returns its result, without polling.
\<close>

theorem Delete_confirms_absence:
  "(fst (resourceTencentCloudCfsSnapshotDelete m cfs c) = None \<longrightarrow>
      fst (DeleteCfsSnapshotById cfs (rid (rd c)) (remote c)) = None
      \<and> (\<exists>j\<le>2 * readRetryTimeout m.
            trace (snd (resourceTencentCloudCfsSnapshotDelete m cfs c))
              = trace c @ [Api ''DeleteCfsSnapshotById'']
                  @ replicate (Suc j) (Api ''DescribeCfsSnapshotById''))
      \<and> (\<exists>w. DescribeCfsSnapshotById cfs (rid (rd c)) w
              = (Inr None, remote (snd (resourceTencentCloudCfsSnapshotDelete m cfs c)))))
   \<and> (fst (resourceTencentCloudEipDelete m eip c) = None \<longrightarrow>
        (\<exists>w. fst (DeleteEip eip (rid (rd c)) w) = None)
        \<and> (\<exists>a\<le>writeRetryTimeout m. \<exists>b\<le>writeRetryTimeout m. \<exists>p\<le>readRetryTimeout m.
              trace (snd (resourceTencentCloudEipDelete m eip c))
                = trace c @ replicate (Suc a) (Api ''UnattachEip'')
                    @ replicate (Suc b) (Api ''DeleteEip'')
                    @ replicate (Suc p) (Api ''DescribeEipById''))
        \<and> (\<exists>w. DescribeEipById eip (rid (rd c)) w
                = (Inr None, remote (snd (resourceTencentCloudEipDelete m eip c)))))
   \<and> (fst (resourceTencentCloudVpnGatewayDelete m k vpn c) = None \<longrightarrow>
        (\<exists>w. fst (DeleteVpnGateway vpn (rid (rd c)) w) = None)
        \<and> (\<exists>a\<le>readRetryTimeout m. \<exists>b\<le>readRetryTimeout m. \<exists>d\<le>writeRetryTimeout m.
            \<exists>p\<le>readRetryTimeout m.
              trace (snd (resourceTencentCloudVpnGatewayDelete m k vpn c))
                = trace c @ replicate (Suc a) (Api ''DescribeVpnGateways'')
                    @ replicate (Suc b) (Api ''DescribeVpnConnections'')
                    @ replicate (Suc d) (Api ''DeleteVpnGateway'')
                    @ replicate (Suc p) (Api ''DescribeVpnGateways''))
        \<and> (\<exists>w. snd (DescribeVpnGateways vpn [rid (rd c)] w)
                 = remote (snd (resourceTencentCloudVpnGatewayDelete m k vpn c))
             \<and> (fst (DescribeVpnGateways vpn [rid (rd c)] w) = Inr []
                \<or> (\<exists>msg. fst (DescribeVpnGateways vpn [rid (rd c)] w)
                            = Inl (SdkError (VPCNotFound k) msg)))))
   \<and> (length (Split (rid (rd c)) ''#'') = 3 \<longrightarrow>
        trace (snd (resourceTencentCloudMariadbSecurityGroupsDelete mariadb c))
          = trace c @ [Api ''DeleteMariadbSecurityGroupsById'']
        \<and> fst (resourceTencentCloudMariadbSecurityGroupsDelete mariadb c)
            = fst (DeleteMariadbSecurityGroupsById mariadb (Split (rid (rd c)) ''#'' ! 0)
                     (Split (rid (rd c)) ''#'' ! 1) (Split (rid (rd c)) ''#'' ! 2) (remote c)))
   \<and> (trace (snd (resourceTencentCloudTsfApplicationConfigDelete tsf c))
         = trace c @ [Api ''DeleteTsfApplicationConfigById'']
      \<and> fst (resourceTencentCloudTsfApplicationConfigDelete tsf c)
          = fst (DeleteTsfApplicationConfigById tsf (rid (rd c)) (remote c)))"
proof (intro conjI impI)
  assume a: "fst (resourceTencentCloudCfsSnapshotDelete m cfs c) = None"
  from cfs_Delete_course [OF a]
  show "fst (DeleteCfsSnapshotById cfs (rid (rd c)) (remote c)) = None"
    and "\<exists>j\<le>2 * readRetryTimeout m.
            trace (snd (resourceTencentCloudCfsSnapshotDelete m cfs c))
              = trace c @ [Api ''DeleteCfsSnapshotById'']
                  @ replicate (Suc j) (Api ''DescribeCfsSnapshotById'')"
    by blast+
  from cfs_Delete_confirms [OF a]
  show "\<exists>w. DescribeCfsSnapshotById cfs (rid (rd c)) w
              = (Inr None, remote (snd (resourceTencentCloudCfsSnapshotDelete m cfs c)))" .
next
  assume a: "fst (resourceTencentCloudEipDelete m eip c) = None"
  from eip_Delete_course [OF a]
  show "\<exists>w. fst (DeleteEip eip (rid (rd c)) w) = None"
    and "\<exists>a\<le>writeRetryTimeout m. \<exists>b\<le>writeRetryTimeout m. \<exists>p\<le>readRetryTimeout m.
              trace (snd (resourceTencentCloudEipDelete m eip c))
                = trace c @ replicate (Suc a) (Api ''UnattachEip'')
                    @ replicate (Suc b) (Api ''DeleteEip'')
                    @ replicate (Suc p) (Api ''DescribeEipById'')"
    by blast+
  from eip_Delete_confirms [OF a]
  show "\<exists>w. DescribeEipById eip (rid (rd c)) w
                = (Inr None, remote (snd (resourceTencentCloudEipDelete m eip c)))" .
next
  assume a: "fst (resourceTencentCloudVpnGatewayDelete m k vpn c) = None"
  from vpn_Delete_course [OF a]
  show "\<exists>w. fst (DeleteVpnGateway vpn (rid (rd c)) w) = None"
    and "\<exists>a\<le>readRetryTimeout m. \<exists>b\<le>readRetryTimeout m. \<exists>d\<le>writeRetryTimeout m.
            \<exists>p\<le>readRetryTimeout m.
              trace (snd (resourceTencentCloudVpnGatewayDelete m k vpn c))
                = trace c @ replicate (Suc a) (Api ''DescribeVpnGateways'')
                    @ replicate (Suc b) (Api ''DescribeVpnConnections'')
                    @ replicate (Suc d) (Api ''DeleteVpnGateway'')
                    @ replicate (Suc p) (Api ''DescribeVpnGateways'')"
    by blast+
  from vpn_Delete_confirms [OF a]
  show "\<exists>w. snd (DescribeVpnGateways vpn [rid (rd c)] w)
                 = remote (snd (resourceTencentCloudVpnGatewayDelete m k vpn c))
             \<and> (fst (DescribeVpnGateways vpn [rid (rd c)] w) = Inr []
                \<or> (\<exists>msg. fst (DescribeVpnGateways vpn [rid (rd c)] w)
                            = Inl (SdkError (VPCNotFound k) msg)))" .
next
  assume a: "length (Split (rid (rd c)) ''#'') = 3"
  from mariadb_Delete_only_call [OF a, of mariadb]
  show "trace (snd (resourceTencentCloudMariadbSecurityGroupsDelete mariadb c))
          = trace c @ [Api ''DeleteMariadbSecurityGroupsById'']"
    and "fst (resourceTencentCloudMariadbSecurityGroupsDelete mariadb c)
            = fst (DeleteMariadbSecurityGroupsById mariadb (Split (rid (rd c)) ''#'' ! 0)
                     (Split (rid (rd c)) ''#'' ! 1) (Split (rid (rd c)) ''#'' ! 2) (remote c))"
    by blast+
next
  from tsf_Delete_only_call [of tsf c]
  show "trace (snd (resourceTencentCloudTsfApplicationConfigDelete tsf c))
         = trace c @ [Api ''DeleteTsfApplicationConfigById'']"
    and "fst (resourceTencentCloudTsfApplicationConfigDelete tsf c)
          = fst (DeleteTsfApplicationConfigById tsf (rid (rd c)) (remote c))"
    by blast+
qed

theorem Delete_confirms_absence_witness:
  "(fst (resourceTencentCloudCfsSnapshotDelete demoMeta cfsLive
          (startIn True (cfsConfig\<lparr>rid := ''snap-b4vu9k2s''\<rparr>))) = None
    \<and> trace (snd (resourceTencentCloudCfsSnapshotDelete demoMeta cfsLive
                     (startIn True (cfsConfig\<lparr>rid := ''snap-b4vu9k2s''\<rparr>))))
        = [Api ''DeleteCfsSnapshotById'', Api ''DescribeCfsSnapshotById'']
    \<and> (\<exists>w. DescribeCfsSnapshotById cfsLive ''snap-b4vu9k2s'' w
             = (Inr None, remote (snd (resourceTencentCloudCfsSnapshotDelete demoMeta cfsLive
                                         (startIn True (cfsConfig\<lparr>rid := ''snap-b4vu9k2s''\<rparr>)))))))
   \<and> (fst (resourceTencentCloudEipDelete demoMeta eipLive
            (startIn True (eipConfig\<lparr>rid := ''eip-a1b2c3d4''\<rparr>))) = None
      \<and> trace (snd (resourceTencentCloudEipDelete demoMeta eipLive
                       (startIn True (eipConfig\<lparr>rid := ''eip-a1b2c3d4''\<rparr>))))
          = [Api ''UnattachEip'', Api ''DeleteEip'', Api ''DescribeEipById'']
      \<and> (\<exists>w. DescribeEipById eipLive ''eip-a1b2c3d4'' w
             = (Inr None, remote (snd (resourceTencentCloudEipDelete demoMeta eipLive
                                         (startIn True (eipConfig\<lparr>rid := ''eip-a1b2c3d4''\<rparr>)))))))
   \<and> (fst (resourceTencentCloudVpnGatewayDelete demoMeta demoPkg vpnLive
            (startIn True (vpnConfig\<lparr>rid := ''vpngw-8ccsnclt''\<rparr>))) = None
      \<and> trace (snd (resourceTencentCloudVpnGatewayDelete demoMeta demoPkg vpnLive
                       (startIn True (vpnConfig\<lparr>rid := ''vpngw-8ccsnclt''\<rparr>))))
          = [Api ''DescribeVpnGateways'', Api ''DescribeVpnConnections'',
             Api ''DeleteVpnGateway'', Api ''DescribeVpnGateways'']
      \<and> (\<exists>w. fst (DescribeVpnGateways vpnLive [''vpngw-8ccsnclt''] w) = Inr []))
   \<and> trace (snd (resourceTencentCloudMariadbSecurityGroupsDelete mariadbDemo (start mariadbState)))
       = [Api ''DeleteMariadbSecurityGroupsById'']"
proof -
  let ?cc = "startIn True (cfsConfig\<lparr>rid := ''snap-b4vu9k2s''\<rparr>)"
  let ?ce = "startIn True (eipConfig\<lparr>rid := ''eip-a1b2c3d4''\<rparr>)"
  let ?cv = "startIn True (vpnConfig\<lparr>rid := ''vpngw-8ccsnclt''\<rparr>)"
  have ids: "rid (rd ?cc) = ''snap-b4vu9k2s''" "rid (rd ?ce) = ''eip-a1b2c3d4''"
    "rid (rd ?cv) = ''vpngw-8ccsnclt''" "trace (start mariadbState) = []"
    by (simp_all add: startIn_def start_def)
  have run1: "(let r = resourceTencentCloudCfsSnapshotDelete demoMeta cfsLive ?cc
               in fst r = None
                  \<and> trace (snd r) = [Api ''DeleteCfsSnapshotById'', Api ''DescribeCfsSnapshotById''])"
    by code_simp
  have run2: "(let r = resourceTencentCloudEipDelete demoMeta eipLive ?ce
               in fst r = None
                  \<and> trace (snd r)
                      = [Api ''UnattachEip'', Api ''DeleteEip'', Api ''DescribeEipById''])"
    by code_simp
  have run3: "(let r = resourceTencentCloudVpnGatewayDelete demoMeta demoPkg vpnLive ?cv
               in fst r = None
                  \<and> trace (snd r)
                      = [Api ''DescribeVpnGateways'', Api ''DescribeVpnConnections'',
                         Api ''DeleteVpnGateway'', Api ''DescribeVpnGateways''])"
    by code_simp
  note r1 = run1 [unfolded Let_def] and r2 = run2 [unfolded Let_def]
    and r3 = run3 [unfolded Let_def]
  have split: "length (Split (rid (rd (start mariadbState))) ''#'') = 3"
    by code_simp
  note T1 = Delete_confirms_absence [of demoMeta cfsLive ?cc]
  note T2 = Delete_confirms_absence [of demoMeta _ ?ce eipLive]
  note T3 = Delete_confirms_absence [of demoMeta _ ?cv _ demoPkg vpnLive]
  note T4 = Delete_confirms_absence [of demoMeta _ "start mariadbState" _ _ _ mariadbDemo]
  from T1 [THEN conjunct1, THEN mp, OF r1 [THEN conjunct1], THEN conjunct2, THEN conjunct2]
  have p1: "\<exists>w. DescribeCfsSnapshotById cfsLive ''snap-b4vu9k2s'' w
             = (Inr None, remote (snd (resourceTencentCloudCfsSnapshotDelete demoMeta cfsLive ?cc)))"
    by (simp only: ids)
  from T2 [THEN conjunct2, THEN conjunct1, THEN mp, OF r2 [THEN conjunct1],
           THEN conjunct2, THEN conjunct2]
  have p2: "\<exists>w. DescribeEipById eipLive ''eip-a1b2c3d4'' w
             = (Inr None, remote (snd (resourceTencentCloudEipDelete demoMeta eipLive ?ce)))"
    by (simp only: ids)
  from T3 [THEN conjunct2, THEN conjunct2, THEN conjunct1, THEN mp, OF r3 [THEN conjunct1],
           THEN conjunct2, THEN conjunct2]
  have p3: "\<exists>w. fst (DescribeVpnGateways vpnLive [''vpngw-8ccsnclt''] w) = Inr []"
    by (auto simp: ids vpnLive_def)
  from T4 [THEN conjunct2, THEN conjunct2, THEN conjunct2, THEN conjunct1, THEN mp, OF split]
  have p4: "trace (snd (resourceTencentCloudMariadbSecurityGroupsDelete mariadbDemo
                          (start mariadbState)))
       = [Api ''DeleteMariadbSecurityGroupsById'']"
    by (simp only: ids append_Nil)
  from r1 r2 r3 p1 p2 p3 p4 show ?thesis by (intro conjI) (erule conjunct1 conjunct2 | assumption)+
qed

section \<open>The order of the steps of Create\<close>










section \<open>Read of a present remote object\<close>

text \<open>
  What Read stores when the describe calls answer with the remote object: the result, the
  identifier and, attribute by attribute, the stored values.
\<close>

lemma dSet_vals: "vals (rd (dSet k v c)) k' = (if k' = k then v else vals (rd c) k')"
  by (simp add: dSet_def)

lemma dSetIfNotNil_vals:
  "vals (rd (dSetIfNotNil k v c)) k'
     = (if k' = k then (case v of None \<Rightarrow> vals (rd c) k' | Some x \<Rightarrow> Some x)
        else vals (rd c) k')"
  by (simp add: dSetIfNotNil_def dSet_def split: option.splits)

lemma dSet_rid: "rid (rd (dSet k v c)) = rid (rd c)"
  by (simp add: dSet_def)

lemma dSetIfNotNil_rid: "rid (rd (dSetIfNotNil k v c)) = rid (rd c)"
  by (simp add: dSetIfNotNil_def dSet_def split: option.splits)

lemma dSet_remote: "remote (dSet k v c) = remote c"
  by (simp add: dSet_def)

lemma dSetIfNotNil_remote: "remote (dSetIfNotNil k v c) = remote c"
  by (simp add: dSetIfNotNil_def dSet_def split: option.splits)

lemmas dSet_facts =
  dSet_vals dSetIfNotNil_vals dSet_rid dSetIfNotNil_rid dSet_remote dSetIfNotNil_remote

lemma cfs_Read_present:
  assumes "DescribeCfsSnapshotById service (rid (rd c)) (remote c) = (Inr (Some snapshot), w1)"
    and "DescribeResourceTags tagService ''cfs'' ''snap'' (Region m) (rid (rd c)) w1
           = (Inr tags, w2)"
  shows "fst (resourceTencentCloudCfsSnapshotRead m service tagService c) = None"
    and "rid (rd (snd (resourceTencentCloudCfsSnapshotRead m service tagService c))) = rid (rd c)"
    and "vals (rd (snd (resourceTencentCloudCfsSnapshotRead m service tagService c))) k
           = (if k = ''file_system_id''
                then (case FileSystemId snapshot of
                        None \<Rightarrow> vals (rd c) k | Some v \<Rightarrow> Some (VString v))
              else if k = ''snapshot_name''
                then (case SnapshotName snapshot of
                        None \<Rightarrow> vals (rd c) k | Some v \<Rightarrow> Some (VString v))
              else if k = ''tags'' then Some (VMap tags)
              else vals (rd c) k)"
  using assms
  by (simp_all add: resourceTencentCloudCfsSnapshotRead_def Let_def call_def dSet_facts
        split: option.splits)

lemma mariadb_Read_present:
  assumes "length (Split (rid (rd c)) FILED_SP) = 3"
    and "DescribeMariadbSecurityGroup service (Split (rid (rd c)) FILED_SP ! 0)
           (Split (rid (rd c)) FILED_SP ! 1) (Split (rid (rd c)) FILED_SP ! 2) (remote c)
           = (Inr (Some securityGroup), w1)"
  shows "fst (resourceTencentCloudMariadbSecurityGroupsRead service c) = None"
    and "rid (rd (snd (resourceTencentCloudMariadbSecurityGroupsRead service c))) = rid (rd c)"
    and "vals (rd (snd (resourceTencentCloudMariadbSecurityGroupsRead service c))) k
           = (if k = ''instance_id'' then Some (VString (Split (rid (rd c)) FILED_SP ! 0))
              else if k = ''security_group_id''
                then Some (VString (Split (rid (rd c)) FILED_SP ! 1))
              else if k = ''product'' then Some (VString (Split (rid (rd c)) FILED_SP ! 2))
              else vals (rd c) k)"
  using assms
  by (simp_all add: resourceTencentCloudMariadbSecurityGroupsRead_def Let_def call_def
        dSet_facts)

lemma tsf_Read_present:
  assumes "DescribeTsfApplicationConfigById service (rid (rd c)) [] (remote c)
             = (Inr (Some applicationConfig), w1)"
  shows "fst (resourceTencentCloudTsfApplicationConfigRead service c) = None"
    and "rid (rd (snd (resourceTencentCloudTsfApplicationConfigRead service c))) = rid (rd c)"
    and "vals (rd (snd (resourceTencentCloudTsfApplicationConfigRead service c))) k
           = (if k = ''config_name''
                then (case ConfigName applicationConfig of
                        None \<Rightarrow> vals (rd c) k | Some v \<Rightarrow> Some (VString v))
              else if k = ''config_version''
                then (case ConfigVersion applicationConfig of
                        None \<Rightarrow> vals (rd c) k | Some v \<Rightarrow> Some (VString v))
              else if k = ''config_value''
                then (case ConfigValue applicationConfig of
                        None \<Rightarrow> vals (rd c) k | Some v \<Rightarrow> Some (VString v))
              else if k = ''application_id''
                then (case ApplicationId applicationConfig of
                        None \<Rightarrow> vals (rd c) k | Some v \<Rightarrow> Some (VString v))
              else if k = ''config_version_desc''
                then (case ConfigVersionDesc applicationConfig of
                        None \<Rightarrow> vals (rd c) k | Some v \<Rightarrow> Some (VString v))
              else if k = ''config_type''
                then (case ConfigType applicationConfig of
                        None \<Rightarrow> vals (rd c) k | Some v \<Rightarrow> Some (VString v))
              else vals (rd c) k)"
  using assms
  by (simp_all add: resourceTencentCloudTsfApplicationConfigRead_def Let_def call_def dSet_facts
        split: option.splits)

lemma eip_Read_present:
  assumes "DescribeEipById vpcService (rid (rd c)) (remote c) = (Inr (Some eip), w1)"
    and "DescribeResourceTags tagService (VPC_SERVICE_TYPE k) (EIP_RESOURCE_TYPE k) (Region m)
           (rid (rd c)) w1 = (Inr tags, w2)"
    and "DescribeVpcBandwidthPackageByEip vpcService (rid (rd c)) w2 = (Inr bgp, w3)"
  shows "fst (resourceTencentCloudEipRead m k vpcService tagService c) = None"
    and "rid (rd (snd (resourceTencentCloudEipRead m k vpcService tagService c))) = rid (rd c)"
    and "vals (rd (snd (resourceTencentCloudEipRead m k vpcService tagService c))) a
           = (if a = ''name'' then map_option VString (AddressName eip)
              else if a = ''type'' then map_option VString (AddressType eip)
              else if a = ''public_ip'' then map_option VString (AddressIp eip)
              else if a = ''status'' then map_option VString (AddressStatus eip)
              else if a = ''internet_charge_type''
                then map_option VString (InternetChargeType eip)
              else if a = ''tags'' then Some (VMap tags)
              else if a = ''bandwidth_package_id''
                then (case bgp of None \<Rightarrow> vals (rd c) a
                      | Some bandwidthPackageId \<Rightarrow> map_option VString bandwidthPackageId)
              else vals (rd c) a)"
proof -
  have "fst (eipReadAttempt m vpcService (rid (rd c)) (None, c)) = RetryOk"
    using assms(1) by (simp add: eipReadAttempt_def call_def)
  from Retry_first_ok [of "eipReadAttempt m vpcService (rid (rd c))" "(None, c)", OF this]
  have R: "Retry (readRetryTimeout m) (eipReadAttempt m vpcService (rid (rd c))) (None, c)
             = (None, Some eip, c\<lparr>remote := w1, trace := trace c @ [Api ''DescribeEipById'']\<rparr>)"
    using assms(1) by (simp add: eipReadAttempt_def call_def)
  show "fst (resourceTencentCloudEipRead m k vpcService tagService c) = None"
    and "rid (rd (snd (resourceTencentCloudEipRead m k vpcService tagService c))) = rid (rd c)"
    and "vals (rd (snd (resourceTencentCloudEipRead m k vpcService tagService c))) a
           = (if a = ''name'' then map_option VString (AddressName eip)
              else if a = ''type'' then map_option VString (AddressType eip)
              else if a = ''public_ip'' then map_option VString (AddressIp eip)
              else if a = ''status'' then map_option VString (AddressStatus eip)
              else if a = ''internet_charge_type''
                then map_option VString (InternetChargeType eip)
              else if a = ''tags'' then Some (VMap tags)
              else if a = ''bandwidth_package_id''
                then (case bgp of None \<Rightarrow> vals (rd c) a
                      | Some bandwidthPackageId \<Rightarrow> map_option VString bandwidthPackageId)
              else vals (rd c) a)"
    using assms(2,3)
    by (simp_all add: resourceTencentCloudEipRead_def Let_def R call_def dSet_facts
          split: option.splits)
qed

lemma vpn_Read_present:
  assumes "DescribeVpngwById service (rid (rd c)) (remote c) = (Inr (True, gateway), w1)"
    and "InternetMaxBandwidthOut gateway = Some bw"
    and "DescribeResourceTags tagService ''vpc'' ''vpngw'' (Region m) (rid (rd c)) w1
           = (Inr tags, w2)"
  shows "fst (resourceTencentCloudVpnGatewayRead m service tagService c) = None"
    and "rid (rd (snd (resourceTencentCloudVpnGatewayRead m service tagService c))) = rid (rd c)"
    and "vals (rd (snd (resourceTencentCloudVpnGatewayRead m service tagService c))) a
           = (if a = ''name'' then map_option VString (VpnGatewayName gateway)
              else if a = ''public_ip_address'' then map_option VString (PublicIpAddress gateway)
              else if a = ''bandwidth'' then Some (VInt (int64 bw))
              else if a = ''type'' then map_option VString (Type gateway)
              else if a = ''create_time'' then map_option VString (CreatedTime gateway)
              else if a = ''state'' then map_option VString (State gateway)
              else if a = ''prepaid_renew_flag'' then map_option VString (RenewFlag gateway)
              else if a = ''charge_type'' then map_option VString (InstanceChargeType gateway)
              else if a = ''expired_time'' then map_option VString (ExpiredTime gateway)
              else if a = ''is_address_blocked''
                then map_option VBool (IsAddressBlocked gateway)
              else if a = ''new_purchase_plan''
                then map_option VString (NewPurchasePlan gateway)
              else if a = ''restrict_state'' then map_option VString (RestrictState gateway)
              else if a = ''zone'' then map_option VString (Zone gateway)
              else if a = ''cdc_id'' then map_option VString (CdcId gateway)
              else if a = ''max_connection''
                then map_option (\<lambda>n. VInt (int64 n)) (MaxConnection gateway)
              else if a = ''tags'' then Some (VMap tags)
              else vals (rd c) a)"
  using assms
  by (simp_all add: resourceTencentCloudVpnGatewayRead_def Let_def call_def dSet_facts)

section \<open>The attributes set by Create and Read\<close>

text \<open>
  Claim C4 says that, for every resource type, a successful Create followed by Read sets
  every attribute declared in the schema from the state of the remote object. The Read of the
  TSF application config never sets \<open>encode_with_base64\<close> and \<open>program_id_list\<close>: after a
  successful Create and a successful Read, the schema attribute \<open>program_id_list\<close> is not
  set.
\<close>

theorem tsf_Create_Read_leaves_program_id_list_unset:
  "fst (resourceTencentCloudTsfApplicationConfigCreate demoMeta tsfDemo (start tsfConfig)) = None
   \<and> fst (resourceTencentCloudTsfApplicationConfigRead tsfDemo
             (snd (resourceTencentCloudTsfApplicationConfigCreate demoMeta tsfDemo
                     (start tsfConfig)))) = None
   \<and> ''program_id_list'' \<in> set tsfApplicationConfigSchema
   \<and> vals (rd (snd (resourceTencentCloudTsfApplicationConfigRead tsfDemo
                       (snd (resourceTencentCloudTsfApplicationConfigCreate demoMeta tsfDemo
                               (start tsfConfig))))))
        ''program_id_list'' = None"
  by code_simp

lemma demo_Create_answers:
  "DescribeCfsSnapshotById cfsDemo
     (rid (rd (snd (resourceTencentCloudCfsSnapshotCreate demoMeta cfsDemo tagDemo
                      (start cfsConfig)))))
     (remote (snd (resourceTencentCloudCfsSnapshotCreate demoMeta cfsDemo tagDemo
                     (start cfsConfig))))
     = (Inr (Some demoSnapshot), ())"
  "DescribeResourceTags tagDemo ''cfs'' ''snap'' (Region demoMeta)
     (rid (rd (snd (resourceTencentCloudCfsSnapshotCreate demoMeta cfsDemo tagDemo
                      (start cfsConfig))))) ()
     = (Inr [(''createdBy'', ''terraform'')], ())"
  "length (Split (rid (rd (snd (resourceTencentCloudMariadbSecurityGroupsCreate demoMeta
                                  mariadbDemo (start mariadbConfig))))) FILED_SP) = 3"
  "DescribeMariadbSecurityGroup mariadbDemo
     (Split (rid (rd (snd (resourceTencentCloudMariadbSecurityGroupsCreate demoMeta
                             mariadbDemo (start mariadbConfig))))) FILED_SP ! 0)
     (Split (rid (rd (snd (resourceTencentCloudMariadbSecurityGroupsCreate demoMeta
                             mariadbDemo (start mariadbConfig))))) FILED_SP ! 1)
     (Split (rid (rd (snd (resourceTencentCloudMariadbSecurityGroupsCreate demoMeta
                             mariadbDemo (start mariadbConfig))))) FILED_SP ! 2)
     (remote (snd (resourceTencentCloudMariadbSecurityGroupsCreate demoMeta mariadbDemo
                     (start mariadbConfig))))
     = (Inr (Some \<lparr>SecurityGroupId = Some ''sg-7kpsbxdb'',
                     SecurityGroupName = Some ''default''\<rparr>), ())"
  "Split (rid (rd (snd (resourceTencentCloudMariadbSecurityGroupsCreate demoMeta
                          mariadbDemo (start mariadbConfig))))) FILED_SP
     = [''tdsql-4pzs5b67'', ''sg-7kpsbxdb'', ''mariadb'']"
  "DescribeTsfApplicationConfigById tsfDemo
     (rid (rd (snd (resourceTencentCloudTsfApplicationConfigCreate demoMeta tsfDemo
                      (start tsfConfig))))) []
     (remote (snd (resourceTencentCloudTsfApplicationConfigCreate demoMeta tsfDemo
                     (start tsfConfig))))
     = (Inr (Some demoConfig), ())"
  "vals (rd (snd (resourceTencentCloudTsfApplicationConfigCreate demoMeta tsfDemo
                    (start tsfConfig)))) ''program_id_list'' = None"
  by code_simp+

lemma demo_Create_answers_eip:
  "DescribeEipById eipDemo
     (rid (rd (snd (resourceTencentCloudEipCreate demoMeta demoPkg eipDemo tagDemo
                      (start eipConfig)))))
     (remote (snd (resourceTencentCloudEipCreate demoMeta demoPkg eipDemo tagDemo
                     (start eipConfig))))
     = (Inr (Some demoAddress), ())"
  "DescribeResourceTags tagDemo (VPC_SERVICE_TYPE demoPkg) (EIP_RESOURCE_TYPE demoPkg)
     (Region demoMeta)
     (rid (rd (snd (resourceTencentCloudEipCreate demoMeta demoPkg eipDemo tagDemo
                      (start eipConfig))))) ()
     = (Inr [(''createdBy'', ''terraform'')], ())"
  "DescribeVpcBandwidthPackageByEip eipDemo
     (rid (rd (snd (resourceTencentCloudEipCreate demoMeta demoPkg eipDemo tagDemo
                      (start eipConfig))))) ()
     = (Inr None, ())"
  "vals (rd (snd (resourceTencentCloudEipCreate demoMeta demoPkg eipDemo tagDemo
                    (start eipConfig)))) ''internet_max_bandwidth_out'' = None"
  by code_simp+

lemma demo_Create_answers_vpn:
  "DescribeVpngwById (vpnDemo demoGateway [])
     (rid (rd (snd (resourceTencentCloudVpnGatewayCreate demoMeta demoPkg
                      (vpnDemo demoGateway []) tagDemo (start vpnConfig)))))
     (remote (snd (resourceTencentCloudVpnGatewayCreate demoMeta demoPkg
                     (vpnDemo demoGateway []) tagDemo (start vpnConfig))))
     = (Inr (True, demoGateway), ())"
  "InternetMaxBandwidthOut demoGateway = Some 5"
  "DescribeResourceTags tagDemo ''vpc'' ''vpngw'' (Region demoMeta)
     (rid (rd (snd (resourceTencentCloudVpnGatewayCreate demoMeta demoPkg
                      (vpnDemo demoGateway []) tagDemo (start vpnConfig))))) ()
     = (Inr [(''createdBy'', ''terraform'')], ())"
  "int64 5 = 5"
  by code_simp+

text \<open>
  Claim C4, amended. A Read whose describe calls answer with the remote object (and, where
  Read asks for them, with the tags and the bandwidth package) returns without error and
  stores these attributes, every other attribute keeping the value it had. CFS snapshot:
  \<open>file_system_id\<close> and \<open>snapshot_name\<close>, each only when the snapshot has the field, and
  \<open>tags\<close>. MariaDB security groups: \<open>instance_id\<close>, \<open>security_group_id\<close> and \<open>product\<close>,
  taken from the three parts of the identifier and not from the object described. TSF
  application config: \<open>config_name\<close>, \<open>config_version\<close>, \<open>config_value\<close>,
  \<open>application_id\<close>, \<open>config_version_desc\<close> and \<open>config_type\<close>, each only when the config
  has the field; \<open>encode_with_base64\<close> and \<open>program_id_list\<close> are never set. EIP: \<open>name\<close>,
  \<open>type\<close>, \<open>public_ip\<close>, \<open>status\<close> and \<open>internet_charge_type\<close> (unset when the field is
  nil), \<open>tags\<close>, and \<open>bandwidth_package_id\<close> when a bandwidth package is found;
  \<open>anycast_zone\<close>, \<open>applicable_for_clb\<close>, \<open>internet_service_provider\<close> and
  \<open>internet_max_bandwidth_out\<close> are never set. VPN gateway, when the gateway has a bandwidth:
  \<open>name\<close>, \<open>public_ip_address\<close>, \<open>bandwidth\<close>, \<open>type\<close>, \<open>create_time\<close>, \<open>state\<close>,
  \<open>prepaid_renew_flag\<close>, \<open>charge_type\<close>, \<open>expired_time\<close>, \<open>is_address_blocked\<close>,
  \<open>new_purchase_plan\<close>, \<open>restrict_state\<close>, \<open>zone\<close>, \<open>cdc_id\<close>, \<open>max_connection\<close> (unset
  when the field is nil; the two numbers converted from \<open>uint64\<close> to \<open>int\<close>) and \<open>tags\<close>;
  \<open>vpc_id\<close> and \<open>prepaid_period\<close> are never set.
\<close>

theorem Read_sets_attributes:
  "(DescribeCfsSnapshotById cfs (rid (rd cc)) (remote cc) = (Inr (Some snapshot), cw1)
    \<and> DescribeResourceTags tagService ''cfs'' ''snap'' (Region m) (rid (rd cc)) cw1
        = (Inr ctags, cw2) \<longrightarrow>
      fst (resourceTencentCloudCfsSnapshotRead m cfs tagService cc) = None
      \<and> vals (rd (snd (resourceTencentCloudCfsSnapshotRead m cfs tagService cc))) a
          = (if a = ''file_system_id''
               then (case FileSystemId snapshot of
                       None \<Rightarrow> vals (rd cc) a | Some v \<Rightarrow> Some (VString v))
             else if a = ''snapshot_name''
               then (case SnapshotName snapshot of
                       None \<Rightarrow> vals (rd cc) a | Some v \<Rightarrow> Some (VString v))
             else if a = ''tags'' then Some (VMap ctags)
             else vals (rd cc) a))
   \<and> (length (Split (rid (rd cm)) FILED_SP) = 3
      \<and> DescribeMariadbSecurityGroup mariadb (Split (rid (rd cm)) FILED_SP ! 0)
          (Split (rid (rd cm)) FILED_SP ! 1) (Split (rid (rd cm)) FILED_SP ! 2) (remote cm)
          = (Inr (Some securityGroup), mw1) \<longrightarrow>
        fst (resourceTencentCloudMariadbSecurityGroupsRead mariadb cm) = None
        \<and> vals (rd (snd (resourceTencentCloudMariadbSecurityGroupsRead mariadb cm))) a
            = (if a = ''instance_id''
                 then Some (VString (Split (rid (rd cm)) FILED_SP ! 0))
               else if a = ''security_group_id''
                 then Some (VString (Split (rid (rd cm)) FILED_SP ! 1))
               else if a = ''product''
                 then Some (VString (Split (rid (rd cm)) FILED_SP ! 2))
               else vals (rd cm) a))
   \<and> (DescribeTsfApplicationConfigById tsf (rid (rd ct)) [] (remote ct)
        = (Inr (Some applicationConfig), tw1) \<longrightarrow>
        fst (resourceTencentCloudTsfApplicationConfigRead tsf ct) = None
        \<and> vals (rd (snd (resourceTencentCloudTsfApplicationConfigRead tsf ct))) a
            = (if a = ''config_name''
                 then (case ConfigName applicationConfig of
                         None \<Rightarrow> vals (rd ct) a | Some v \<Rightarrow> Some (VString v))
               else if a = ''config_version''
                 then (case ConfigVersion applicationConfig of
                         None \<Rightarrow> vals (rd ct) a | Some v \<Rightarrow> Some (VString v))
               else if a = ''config_value''
                 then (case ConfigValue applicationConfig of
                         None \<Rightarrow> vals (rd ct) a | Some v \<Rightarrow> Some (VString v))
               else if a = ''application_id''
                 then (case ApplicationId applicationConfig of
                         None \<Rightarrow> vals (rd ct) a | Some v \<Rightarrow> Some (VString v))
               else if a = ''config_version_desc''
                 then (case ConfigVersionDesc applicationConfig of
                         None \<Rightarrow> vals (rd ct) a | Some v \<Rightarrow> Some (VString v))
               else if a = ''config_type''
                 then (case ConfigType applicationConfig of
                         None \<Rightarrow> vals (rd ct) a | Some v \<Rightarrow> Some (VString v))
               else vals (rd ct) a)
        \<and> (\<forall>b \<in> set [''encode_with_base64'', ''program_id_list''].
              vals (rd (snd (resourceTencentCloudTsfApplicationConfigRead tsf ct))) b
                = vals (rd ct) b))
   \<and> (DescribeEipById eip (rid (rd ce)) (remote ce) = (Inr (Some address), ew1)
      \<and> DescribeResourceTags tagService (VPC_SERVICE_TYPE k) (EIP_RESOURCE_TYPE k) (Region m)
          (rid (rd ce)) ew1 = (Inr etags, ew2)
      \<and> DescribeVpcBandwidthPackageByEip eip (rid (rd ce)) ew2 = (Inr bgp, ew3) \<longrightarrow>
        fst (resourceTencentCloudEipRead m k eip tagService ce) = None
        \<and> vals (rd (snd (resourceTencentCloudEipRead m k eip tagService ce))) a
            = (if a = ''name'' then map_option VString (AddressName address)
               else if a = ''type'' then map_option VString (AddressType address)
               else if a = ''public_ip'' then map_option VString (AddressIp address)
               else if a = ''status'' then map_option VString (AddressStatus address)
               else if a = ''internet_charge_type''
                 then map_option VString (InternetChargeType address)
               else if a = ''tags'' then Some (VMap etags)
               else if a = ''bandwidth_package_id''
                 then (case bgp of None \<Rightarrow> vals (rd ce) a
                       | Some bandwidthPackageId \<Rightarrow> map_option VString bandwidthPackageId)
               else vals (rd ce) a)
        \<and> (\<forall>b \<in> set [''anycast_zone'', ''applicable_for_clb'', ''internet_service_provider'',
                        ''internet_max_bandwidth_out''].
              vals (rd (snd (resourceTencentCloudEipRead m k eip tagService ce))) b
                = vals (rd ce) b))
   \<and> (DescribeVpngwById vpn (rid (rd cv)) (remote cv) = (Inr (True, gateway), vw1)
      \<and> InternetMaxBandwidthOut gateway = Some bw
      \<and> DescribeResourceTags tagService ''vpc'' ''vpngw'' (Region m) (rid (rd cv)) vw1
          = (Inr vtags, vw2) \<longrightarrow>
        fst (resourceTencentCloudVpnGatewayRead m vpn tagService cv) = None
        \<and> vals (rd (snd (resourceTencentCloudVpnGatewayRead m vpn tagService cv))) a
            = (if a = ''name'' then map_option VString (VpnGatewayName gateway)
               else if a = ''public_ip_address''
                 then map_option VString (PublicIpAddress gateway)
               else if a = ''bandwidth'' then Some (VInt (int64 bw))
               else if a = ''type'' then map_option VString (Type gateway)
               else if a = ''create_time'' then map_option VString (CreatedTime gateway)
               else if a = ''state'' then map_option VString (State gateway)
               else if a = ''prepaid_renew_flag'' then map_option VString (RenewFlag gateway)
               else if a = ''charge_type''
                 then map_option VString (InstanceChargeType gateway)
               else if a = ''expired_time'' then map_option VString (ExpiredTime gateway)
               else if a = ''is_address_blocked''
                 then map_option VBool (IsAddressBlocked gateway)
               else if a = ''new_purchase_plan''
                 then map_option VString (NewPurchasePlan gateway)
               else if a = ''restrict_state''
                 then map_option VString (RestrictState gateway)
               else if a = ''zone'' then map_option VString (Zone gateway)
               else if a = ''cdc_id'' then map_option VString (CdcId gateway)
               else if a = ''max_connection''
                 then map_option (\<lambda>n. VInt (int64 n)) (MaxConnection gateway)
               else if a = ''tags'' then Some (VMap vtags)
               else vals (rd cv) a)
        \<and> (\<forall>b \<in> set [''vpc_id'', ''prepaid_period''].
              vals (rd (snd (resourceTencentCloudVpnGatewayRead m vpn tagService cv))) b
                = vals (rd cv) b))"
proof (intro conjI impI; (elim conjE)?)
  assume h: "DescribeCfsSnapshotById cfs (rid (rd cc)) (remote cc) = (Inr (Some snapshot), cw1)"
    "DescribeResourceTags tagService ''cfs'' ''snap'' (Region m) (rid (rd cc)) cw1
       = (Inr ctags, cw2)"
  from cfs_Read_present(1) [OF h]
  show "fst (resourceTencentCloudCfsSnapshotRead m cfs tagService cc) = None" .
  from cfs_Read_present(3) [OF h]
  show "vals (rd (snd (resourceTencentCloudCfsSnapshotRead m cfs tagService cc))) a
          = (if a = ''file_system_id''
               then (case FileSystemId snapshot of
                       None \<Rightarrow> vals (rd cc) a | Some v \<Rightarrow> Some (VString v))
             else if a = ''snapshot_name''
               then (case SnapshotName snapshot of
                       None \<Rightarrow> vals (rd cc) a | Some v \<Rightarrow> Some (VString v))
             else if a = ''tags'' then Some (VMap ctags)
             else vals (rd cc) a)" .
next
  assume h: "length (Split (rid (rd cm)) FILED_SP) = 3"
    "DescribeMariadbSecurityGroup mariadb (Split (rid (rd cm)) FILED_SP ! 0)
       (Split (rid (rd cm)) FILED_SP ! 1) (Split (rid (rd cm)) FILED_SP ! 2) (remote cm)
       = (Inr (Some securityGroup), mw1)"
  from mariadb_Read_present(1) [OF h]
  show "fst (resourceTencentCloudMariadbSecurityGroupsRead mariadb cm) = None" .
  from mariadb_Read_present(3) [OF h]
  show "vals (rd (snd (resourceTencentCloudMariadbSecurityGroupsRead mariadb cm))) a
          = (if a = ''instance_id''
               then Some (VString (Split (rid (rd cm)) FILED_SP ! 0))
             else if a = ''security_group_id''
               then Some (VString (Split (rid (rd cm)) FILED_SP ! 1))
             else if a = ''product''
               then Some (VString (Split (rid (rd cm)) FILED_SP ! 2))
             else vals (rd cm) a)" .
next
  assume h: "DescribeTsfApplicationConfigById tsf (rid (rd ct)) [] (remote ct)
               = (Inr (Some applicationConfig), tw1)"
  from tsf_Read_present(1) [OF h]
  show "fst (resourceTencentCloudTsfApplicationConfigRead tsf ct) = None" .
  from tsf_Read_present(3) [OF h]
  show "vals (rd (snd (resourceTencentCloudTsfApplicationConfigRead tsf ct))) a
          = (if a = ''config_name''
               then (case ConfigName applicationConfig of
                       None \<Rightarrow> vals (rd ct) a | Some v \<Rightarrow> Some (VString v))
             else if a = ''config_version''
               then (case ConfigVersion applicationConfig of
                       None \<Rightarrow> vals (rd ct) a | Some v \<Rightarrow> Some (VString v))
             else if a = ''config_value''
               then (case ConfigValue applicationConfig of
                       None \<Rightarrow> vals (rd ct) a | Some v \<Rightarrow> Some (VString v))
             else if a = ''application_id''
               then (case ApplicationId applicationConfig of
                       None \<Rightarrow> vals (rd ct) a | Some v \<Rightarrow> Some (VString v))
             else if a = ''config_version_desc''
               then (case ConfigVersionDesc applicationConfig of
                       None \<Rightarrow> vals (rd ct) a | Some v \<Rightarrow> Some (VString v))
             else if a = ''config_type''
               then (case ConfigType applicationConfig of
                       None \<Rightarrow> vals (rd ct) a | Some v \<Rightarrow> Some (VString v))
             else vals (rd ct) a)" .
  show "\<forall>b \<in> set [''encode_with_base64'', ''program_id_list''].
          vals (rd (snd (resourceTencentCloudTsfApplicationConfigRead tsf ct))) b
            = vals (rd ct) b"
    by (simp add: tsf_Read_present(3) [OF h])
next
  assume h: "DescribeEipById eip (rid (rd ce)) (remote ce) = (Inr (Some address), ew1)"
    "DescribeResourceTags tagService (VPC_SERVICE_TYPE k) (EIP_RESOURCE_TYPE k) (Region m)
       (rid (rd ce)) ew1 = (Inr etags, ew2)"
    "DescribeVpcBandwidthPackageByEip eip (rid (rd ce)) ew2 = (Inr bgp, ew3)"
  from eip_Read_present(1) [OF h]
  show "fst (resourceTencentCloudEipRead m k eip tagService ce) = None" .
  from eip_Read_present(3) [OF h]
  show "vals (rd (snd (resourceTencentCloudEipRead m k eip tagService ce))) a
          = (if a = ''name'' then map_option VString (AddressName address)
             else if a = ''type'' then map_option VString (AddressType address)
             else if a = ''public_ip'' then map_option VString (AddressIp address)
             else if a = ''status'' then map_option VString (AddressStatus address)
             else if a = ''internet_charge_type''
               then map_option VString (InternetChargeType address)
             else if a = ''tags'' then Some (VMap etags)
             else if a = ''bandwidth_package_id''
               then (case bgp of None \<Rightarrow> vals (rd ce) a
                     | Some bandwidthPackageId \<Rightarrow> map_option VString bandwidthPackageId)
             else vals (rd ce) a)" .
  show "\<forall>b \<in> set [''anycast_zone'', ''applicable_for_clb'', ''internet_service_provider'',
                    ''internet_max_bandwidth_out''].
          vals (rd (snd (resourceTencentCloudEipRead m k eip tagService ce))) b
            = vals (rd ce) b"
    by (simp add: eip_Read_present(3) [OF h])
next
  assume h: "DescribeVpngwById vpn (rid (rd cv)) (remote cv) = (Inr (True, gateway), vw1)"
    "InternetMaxBandwidthOut gateway = Some bw"
    "DescribeResourceTags tagService ''vpc'' ''vpngw'' (Region m) (rid (rd cv)) vw1
       = (Inr vtags, vw2)"
  from vpn_Read_present(1) [OF h]
  show "fst (resourceTencentCloudVpnGatewayRead m vpn tagService cv) = None" .
  from vpn_Read_present(3) [OF h]
  show "vals (rd (snd (resourceTencentCloudVpnGatewayRead m vpn tagService cv))) a
          = (if a = ''name'' then map_option VString (VpnGatewayName gateway)
             else if a = ''public_ip_address''
               then map_option VString (PublicIpAddress gateway)
             else if a = ''bandwidth'' then Some (VInt (int64 bw))
             else if a = ''type'' then map_option VString (Type gateway)
             else if a = ''create_time'' then map_option VString (CreatedTime gateway)
             else if a = ''state'' then map_option VString (State gateway)
             else if a = ''prepaid_renew_flag'' then map_option VString (RenewFlag gateway)
             else if a = ''charge_type''
               then map_option VString (InstanceChargeType gateway)
             else if a = ''expired_time'' then map_option VString (ExpiredTime gateway)
             else if a = ''is_address_blocked''
               then map_option VBool (IsAddressBlocked gateway)
             else if a = ''new_purchase_plan''
               then map_option VString (NewPurchasePlan gateway)
             else if a = ''restrict_state''
               then map_option VString (RestrictState gateway)
             else if a = ''zone'' then map_option VString (Zone gateway)
             else if a = ''cdc_id'' then map_option VString (CdcId gateway)
             else if a = ''max_connection''
               then map_option (\<lambda>n. VInt (int64 n)) (MaxConnection gateway)
             else if a = ''tags'' then Some (VMap vtags)
             else vals (rd cv) a)" .
  show "\<forall>b \<in> set [''vpc_id'', ''prepaid_period''].
          vals (rd (snd (resourceTencentCloudVpnGatewayRead m vpn tagService cv))) b
            = vals (rd cv) b"
    by (simp add: vpn_Read_present(3) [OF h])
qed

theorem Read_sets_attributes_witness:
  "(let c = snd (resourceTencentCloudCfsSnapshotCreate demoMeta cfsDemo tagDemo (start cfsConfig))
    in DescribeCfsSnapshotById cfsDemo (rid (rd c)) (remote c) = (Inr (Some demoSnapshot), ())
       \<and> DescribeResourceTags tagDemo ''cfs'' ''snap'' (Region demoMeta) (rid (rd c)) ()
           = (Inr [(''createdBy'', ''terraform'')], ())
       \<and> fst (resourceTencentCloudCfsSnapshotRead demoMeta cfsDemo tagDemo c) = None
       \<and> vals (rd (snd (resourceTencentCloudCfsSnapshotRead demoMeta cfsDemo tagDemo c)))
            ''snapshot_name'' = Some (VString ''test''))
   \<and> (let c = snd (resourceTencentCloudMariadbSecurityGroupsCreate demoMeta mariadbDemo
                     (start mariadbConfig))
      in length (Split (rid (rd c)) FILED_SP) = 3
         \<and> DescribeMariadbSecurityGroup mariadbDemo (Split (rid (rd c)) FILED_SP ! 0)
             (Split (rid (rd c)) FILED_SP ! 1) (Split (rid (rd c)) FILED_SP ! 2) (remote c)
             = (Inr (Some \<lparr>SecurityGroupId = Some ''sg-7kpsbxdb'',
                             SecurityGroupName = Some ''default''\<rparr>), ())
         \<and> fst (resourceTencentCloudMariadbSecurityGroupsRead mariadbDemo c) = None
         \<and> vals (rd (snd (resourceTencentCloudMariadbSecurityGroupsRead mariadbDemo c)))
              ''product'' = Some (VString ''mariadb''))
   \<and> (let c = snd (resourceTencentCloudTsfApplicationConfigCreate demoMeta tsfDemo
                     (start tsfConfig))
      in DescribeTsfApplicationConfigById tsfDemo (rid (rd c)) [] (remote c)
           = (Inr (Some demoConfig), ())
         \<and> fst (resourceTencentCloudTsfApplicationConfigRead tsfDemo c) = None
         \<and> vals (rd (snd (resourceTencentCloudTsfApplicationConfigRead tsfDemo c)))
              ''config_name'' = Some (VString ''test-2'')
         \<and> vals (rd (snd (resourceTencentCloudTsfApplicationConfigRead tsfDemo c)))
              ''program_id_list'' = None)
   \<and> (let c = snd (resourceTencentCloudEipCreate demoMeta demoPkg eipDemo tagDemo
                     (start eipConfig))
      in DescribeEipById eipDemo (rid (rd c)) (remote c) = (Inr (Some demoAddress), ())
         \<and> DescribeResourceTags tagDemo (VPC_SERVICE_TYPE demoPkg) (EIP_RESOURCE_TYPE demoPkg)
             (Region demoMeta) (rid (rd c)) () = (Inr [(''createdBy'', ''terraform'')], ())
         \<and> DescribeVpcBandwidthPackageByEip eipDemo (rid (rd c)) () = (Inr None, ())
         \<and> fst (resourceTencentCloudEipRead demoMeta demoPkg eipDemo tagDemo c) = None
         \<and> vals (rd (snd (resourceTencentCloudEipRead demoMeta demoPkg eipDemo tagDemo c)))
              ''public_ip'' = Some (VString ''1.2.3.4'')
         \<and> vals (rd (snd (resourceTencentCloudEipRead demoMeta demoPkg eipDemo tagDemo c)))
              ''internet_max_bandwidth_out'' = None)
   \<and> (let c = snd (resourceTencentCloudVpnGatewayCreate demoMeta demoPkg
                     (vpnDemo demoGateway []) tagDemo (start vpnConfig))
      in DescribeVpngwById (vpnDemo demoGateway []) (rid (rd c)) (remote c)
           = (Inr (True, demoGateway), ())
         \<and> InternetMaxBandwidthOut demoGateway = Some 5
         \<and> DescribeResourceTags tagDemo ''vpc'' ''vpngw'' (Region demoMeta) (rid (rd c)) ()
             = (Inr [(''createdBy'', ''terraform'')], ())
         \<and> fst (resourceTencentCloudVpnGatewayRead demoMeta (vpnDemo demoGateway []) tagDemo c)
             = None
         \<and> vals (rd (snd (resourceTencentCloudVpnGatewayRead demoMeta (vpnDemo demoGateway [])
                             tagDemo c)))
              ''bandwidth'' = Some (VInt 5))"
proof -
  note c = demo_Create_answers(1,2)
  note cfs = Read_sets_attributes [THEN conjunct1, THEN mp, OF conjI [OF c]]
  have p1: "fst (resourceTencentCloudCfsSnapshotRead demoMeta cfsDemo tagDemo
                   (snd (resourceTencentCloudCfsSnapshotCreate demoMeta cfsDemo tagDemo
                           (start cfsConfig)))) = None
            \<and> vals (rd (snd (resourceTencentCloudCfsSnapshotRead demoMeta cfsDemo tagDemo
                               (snd (resourceTencentCloudCfsSnapshotCreate demoMeta cfsDemo
                                       tagDemo (start cfsConfig))))))
                 ''snapshot_name'' = Some (VString ''test'')"
    using cfs [of "''snapshot_name''"] by (simp add: demoSnapshot_def)
  note md = demo_Create_answers(3,4)
  note mariadb = Read_sets_attributes [THEN conjunct2, THEN conjunct1, THEN mp, OF conjI [OF md]]
  have p2: "fst (resourceTencentCloudMariadbSecurityGroupsRead mariadbDemo
                   (snd (resourceTencentCloudMariadbSecurityGroupsCreate demoMeta mariadbDemo
                           (start mariadbConfig)))) = None
            \<and> vals (rd (snd (resourceTencentCloudMariadbSecurityGroupsRead mariadbDemo
                               (snd (resourceTencentCloudMariadbSecurityGroupsCreate demoMeta
                                       mariadbDemo (start mariadbConfig))))))
                 ''product'' = Some (VString ''mariadb'')"
    using mariadb [of "''product''"] by (simp add: demo_Create_answers(5))
  note t = demo_Create_answers(6)
  note tsf = Read_sets_attributes [THEN conjunct2, THEN conjunct2, THEN conjunct1, THEN mp, OF t]
  have p3: "fst (resourceTencentCloudTsfApplicationConfigRead tsfDemo
                   (snd (resourceTencentCloudTsfApplicationConfigCreate demoMeta tsfDemo
                           (start tsfConfig)))) = None
            \<and> vals (rd (snd (resourceTencentCloudTsfApplicationConfigRead tsfDemo
                               (snd (resourceTencentCloudTsfApplicationConfigCreate demoMeta
                                       tsfDemo (start tsfConfig))))))
                 ''config_name'' = Some (VString ''test-2'')
            \<and> vals (rd (snd (resourceTencentCloudTsfApplicationConfigRead tsfDemo
                               (snd (resourceTencentCloudTsfApplicationConfigCreate demoMeta
                                       tsfDemo (start tsfConfig))))))
                 ''program_id_list'' = None"
    using tsf [of "''config_name''"] by (simp add: demoConfig_def demo_Create_answers(7))
  note e = demo_Create_answers_eip(1,2,3)
  note eip = Read_sets_attributes [THEN conjunct2, THEN conjunct2, THEN conjunct2,
               THEN conjunct1, THEN mp, OF conjI [OF e(1) conjI [OF e(2,3)]]]
  have p4: "fst (resourceTencentCloudEipRead demoMeta demoPkg eipDemo tagDemo
                   (snd (resourceTencentCloudEipCreate demoMeta demoPkg eipDemo tagDemo
                           (start eipConfig)))) = None
            \<and> vals (rd (snd (resourceTencentCloudEipRead demoMeta demoPkg eipDemo tagDemo
                               (snd (resourceTencentCloudEipCreate demoMeta demoPkg eipDemo
                                       tagDemo (start eipConfig))))))
                 ''public_ip'' = Some (VString ''1.2.3.4'')
            \<and> vals (rd (snd (resourceTencentCloudEipRead demoMeta demoPkg eipDemo tagDemo
                               (snd (resourceTencentCloudEipCreate demoMeta demoPkg eipDemo
                                       tagDemo (start eipConfig))))))
                 ''internet_max_bandwidth_out'' = None"
    using eip [of "''public_ip''"] by (simp add: demoAddress_def demo_Create_answers_eip(4))
  note v = demo_Create_answers_vpn(1,2,3)
  note vpn = Read_sets_attributes [THEN conjunct2, THEN conjunct2, THEN conjunct2,
               THEN conjunct2, THEN mp, OF conjI [OF v(1) conjI [OF v(2,3)]]]
  have p5: "fst (resourceTencentCloudVpnGatewayRead demoMeta (vpnDemo demoGateway []) tagDemo
                   (snd (resourceTencentCloudVpnGatewayCreate demoMeta demoPkg
                           (vpnDemo demoGateway []) tagDemo (start vpnConfig)))) = None
            \<and> vals (rd (snd (resourceTencentCloudVpnGatewayRead demoMeta
                               (vpnDemo demoGateway []) tagDemo
                               (snd (resourceTencentCloudVpnGatewayCreate demoMeta demoPkg
                                       (vpnDemo demoGateway []) tagDemo (start vpnConfig))))))
                 ''bandwidth'' = Some (VInt 5)"
    using vpn [of "''bandwidth''"] by (simp add: demo_Create_answers_vpn(4))
  from c md t e v p1 p2 p3 p4 p5 show ?thesis
    unfolding Let_def by (simp only: simp_thms)
qed

end
